theory Spec2Isabelle
  imports Main "HOL-Library.Word"
begin

section \<open>Data model of the SparkApplication controller\<close>

text \<open>
  The controller of \<^verbatim>\<open>pkg/controller/controller.go\<close> works on SparkApplication objects.
  Their Go type declarations live in the package \<^verbatim>\<open>v1alpha1\<close>; the controller reads and
  writes the fields modelled below.

  Modelled from the spec: the declarations of \<^verbatim>\<open>v1alpha1.ApplicationStateType\<close>,
  \<^verbatim>\<open>v1alpha1.RestartPolicy\<close> and \<^verbatim>\<open>v1alpha1.ExecutorState\<close> (string types with named
  constants). The data model lists the application states New, Submitted, Running,
  Completed, Failed, FailedSubmission, Unknown and the restart policies Never, Undefined,
  OnFailure, Always. \<open>NoState\<close> and \<open>ExecutorNoState\<close> stand for the Go zero value (the
  empty string) of the state types, which the empty status literal
  \<^verbatim>\<open>v1alpha1.SparkApplicationStatus{}\<close> carries.
\<close>

datatype ApplicationStateType =
    NoState
  | NewState
  | SubmittedState
  | RunningState
  | CompletedState
  | FailedState
  | FailedSubmissionState
  | UnknownState

datatype RestartPolicy = Undefined | Never | OnFailure | Always

datatype ExecutorState =
    ExecutorNoState
  | ExecutorPendingState
  | ExecutorRunningState
  | ExecutorCompletedState
  | ExecutorFailedState
  | ExecutorUnknownState

text \<open>
  \<^verbatim>\<open>apiv1.PodPhase\<close> is a string type of the Kubernetes API; a pod phase can be any string,
  and the API names five of them.
\<close>

type_synonym PodPhase = string

definition PodPending :: PodPhase where "PodPending = ''Pending''"
definition PodRunning :: PodPhase where "PodRunning = ''Running''"
definition PodSucceeded :: PodPhase where "PodSucceeded = ''Succeeded''"
definition PodFailed :: PodPhase where "PodFailed = ''Failed''"
definition PodUnknown :: PodPhase where "PodUnknown = ''Unknown''"

text \<open>
  A \<^verbatim>\<open>metav1.Time\<close> is kept as the number of nanoseconds since the zero instant, so that
  \<^verbatim>\<open>IsZero\<close> is the comparison with 0 and \<^verbatim>\<open>reflect.DeepEqual\<close> is equality.
\<close>

type_synonym Time = int

definition IsZero :: "Time \<Rightarrow> bool" where
  "IsZero t = (t = 0)"

record DriverInfo =
  WebUIPort :: "32 word"
  WebUIAddress :: string
  PodName :: string

record ApplicationState =
  State :: ApplicationStateType
  ErrorMessage :: string

text \<open>
  \<open>ExecutorState\<close> is a Go map: \<open>None\<close> is the nil map, \<open>Some m\<close> an allocated one.
  \<^verbatim>\<open>reflect.DeepEqual\<close> tells a nil map from an empty one, as equality on this type does.
\<close>

record SparkApplicationStatus =
  AppID :: string
  SubmissionTime :: Time
  CompletionTime :: Time
  DriverInfo :: DriverInfo
  AppState :: ApplicationState
  ExecutorState :: "(string \<rightharpoonup> ExecutorState) option"

record SparkApplicationSpec =
  RestartPolicy :: RestartPolicy

record SparkApplication =
  Name :: string
  Namespace :: string
  UID :: string
  Spec :: SparkApplicationSpec
  Status :: SparkApplicationStatus

text \<open>The value of the Go literal \<^verbatim>\<open>v1alpha1.SparkApplicationStatus{}\<close>: every field zero.\<close>

definition emptyDriverInfo :: DriverInfo where
  "emptyDriverInfo = \<lparr>WebUIPort = 0, WebUIAddress = [], PodName = []\<rparr>"

definition emptyStatus :: SparkApplicationStatus where
  "emptyStatus =
     \<lparr>AppID = [], SubmissionTime = 0, CompletionTime = 0, DriverInfo = emptyDriverInfo,
      AppState = \<lparr>State = NoState, ErrorMessage = []\<rparr>, ExecutorState = None\<rparr>"

subsection \<open>Messages of the pod monitor\<close>

text \<open>
  Modelled from the spec: the structs \<^verbatim>\<open>driverStateUpdate\<close> and \<^verbatim>\<open>executorStateUpdate\<close>
  are declared in another file of the package; their fields are the ones the controller
  reads (the prefixes \<open>d_\<close> and \<open>e_\<close> keep the two records' field names apart).
\<close>

record driverStateUpdate =
  d_appName :: string
  d_appNamespace :: string
  d_podName :: string
  d_nodeName :: string
  d_podPhase :: PodPhase
  d_completionTime :: Time

record executorStateUpdate =
  e_appName :: string
  e_appNamespace :: string
  e_podName :: string
  e_executorID :: string
  e_state :: ExecutorState

datatype podStateUpdate =
    DriverUpdate driverStateUpdate
  | ExecutorUpdate executorStateUpdate

subsection \<open>Errors\<close>

text \<open>
  An error value is either an API status error, with the fields \<^verbatim>\<open>Status\<close>, \<^verbatim>\<open>Code\<close> and
  \<^verbatim>\<open>Reason\<close> of its \<^verbatim>\<open>metav1.Status\<close>, or any other error, kept by its message.
  \<^verbatim>\<open>errors.IsNotFound\<close> holds of the status errors whose reason is \<^verbatim>\<open>NotFound\<close>.
\<close>

datatype error =
    StatusError string int string
  | OtherError string

definition StatusFailure :: string where "StatusFailure = ''Failure''"
definition StatusNotFound :: int where "StatusNotFound = 404"
definition StatusReasonNotFound :: string where "StatusReasonNotFound = ''NotFound''"
definition StatusReasonConflict :: string where "StatusReasonConflict = ''Conflict''"

fun IsNotFound :: "error \<Rightarrow> bool" where
  "IsNotFound (StatusError st code reason) = (reason = StatusReasonNotFound)"
| "IsNotFound (OtherError msg) = False"

section \<open>Pure helpers\<close>

definition maximumUpdateRetries :: nat where
  "maximumUpdateRetries = 3"

definition getApplicationKey :: "string \<Rightarrow> string \<Rightarrow> string" where
  "getApplicationKey namespace name = namespace @ ''/'' @ name"

definition isAppTerminated :: "ApplicationStateType \<Rightarrow> bool" where
  "isAppTerminated appState = (appState = CompletedState \<or> appState = FailedState)"

definition driverPodPhaseToApplicationState :: "PodPhase \<Rightarrow> ApplicationStateType" where
  "driverPodPhaseToApplicationState podPhase =
     (if podPhase = PodPending then SubmittedState
      else if podPhase = PodRunning then RunningState
      else if podPhase = PodSucceeded then CompletedState
      else if podPhase = PodFailed then FailedState
      else UnknownState)"

text \<open>Decimal rendering, as \<^verbatim>\<open>%d\<close> and \<^verbatim>\<open>strconv.FormatInt(_, 10)\<close> produce it.\<close>

fun decimal :: "nat \<Rightarrow> string" where
  "decimal n =
     (if n < 10 then [''0123456789'' ! n]
      else decimal (n div 10) @ [''0123456789'' ! (n mod 10)])"

declare decimal.simps [simp del]

definition FormatInt :: "int \<Rightarrow> string" where
  "FormatInt i = (if i < 0 then ''-'' @ decimal (nat (- i)) else decimal (nat i))"

section \<open>Collaborators of the controller\<close>

text \<open>
  The controller talks to the informer's store, the API server (\<^verbatim>\<open>crdClient\<close>,
  \<^verbatim>\<open>kubeClient\<close>), the work queue, the event recorder, the log and the submission runner.
  None of them is part of the source under study. What the controller hands to them is
  recorded, in order, as a list of events; what they answer is given by functions of an
  abstract world \<open>'w\<close>, which a call may change. The debug lines that depend on the
  verbosity of the log (\<^verbatim>\<open>glog.V(2).Infof\<close>) are not recorded.
\<close>

record NodeAddress =
  addr_Type :: string
  addr_Address :: string

definition NodeExternalIP :: string where "NodeExternalIP = ''ExternalIP''"

text \<open>
  Modelled from the spec: \<^verbatim>\<open>newSubmission\<close> and the submission type are declared in another
  file of the package; a submission is the pair of the command arguments and the job.
\<close>

record Submission =
  commandArgs :: "string list"
  job :: SparkApplication

definition newSubmission :: "string list \<Rightarrow> SparkApplication \<Rightarrow> Submission" where
  "newSubmission args app = \<lparr>commandArgs = args, job = app\<rparr>"

datatype arg =
    Str string
  | Err error
  | Policy RestartPolicy
  | AppStateArg ApplicationState

datatype event =
    GlogErrorf string "arg list"
  | GlogInfof string "arg list"
  | HandleError string "arg list"
  | RecorderEventf SparkApplication string string "arg list"
  | QueueAddRateLimited string
  | QueueForget string
  | QueueDone string
  | ClientUpdate SparkApplication "error + SparkApplication"
  | ClientGet string string "error + SparkApplication"
  | RunnerSubmit Submission

text \<open>
  The answers of the collaborators.
  \<^item> \<open>store_GetByKey\<close>: the store's \<^verbatim>\<open>GetByKey\<close>; \<open>Inl err\<close> is a lookup error,
    \<open>Inr None\<close> is \<^verbatim>\<open>exists = false\<close>, \<open>Inr (Some item)\<close> the cached object.
  \<^item> \<open>crd_Update\<close>, \<open>crd_Get\<close>: \<^verbatim>\<open>Update\<close> and \<^verbatim>\<open>Get\<close> of the SparkApplication client.
  \<^item> \<open>nodes_Get\<close>: the addresses in the status of the node that \<^verbatim>\<open>Nodes().Get\<close> returns.
  \<^item> \<open>now_UnixNano\<close>: \<^verbatim>\<open>time.Now().UnixNano()\<close>, an int64.
  \<^item> \<open>queue_Get\<close>: the work queue's \<^verbatim>\<open>Get\<close>, a key and the shutdown flag.
  \<^item> \<open>hash32\<close>. Modelled from the spec: \<^verbatim>\<open>util.NewHash32\<close> is not part of the source under
    study (the internals of the hashing utility are out of scope); the 32-bit sum is a
    function of the byte strings written to the hasher, in order.
  \<^item> \<open>createSparkUIService\<close>. Modelled from the spec: the function is declared in another
    file of the package; the spec describes it as ensuring that a UI-access service
    exists for the job, an external side effect. It acts on the world and leaves the
    job it is given as it is.
  \<^item> \<open>buildSubmissionCommandArgs\<close>. Modelled from the spec: declared in another file of
    the package; it returns the arguments and an error, and is a function of the job.
\<close>

record 'w collaborators =
  store_GetByKey :: "'w \<Rightarrow> string \<Rightarrow> error + SparkApplication option"
  crd_Update :: "'w \<Rightarrow> SparkApplication \<Rightarrow> (error + SparkApplication) \<times> 'w"
  crd_Get :: "'w \<Rightarrow> string \<Rightarrow> string \<Rightarrow> (error + SparkApplication) \<times> 'w"
  nodes_Get :: "'w \<Rightarrow> string \<Rightarrow> error + NodeAddress list"
  now_UnixNano :: "'w \<Rightarrow> 64 word \<times> 'w"
  queue_Get :: "'w \<Rightarrow> (string \<times> bool) \<times> 'w"
  hash32 :: "string list \<Rightarrow> 32 word"
  createSparkUIService :: "SparkApplication \<Rightarrow> 'w \<Rightarrow> 'w"
  buildSubmissionCommandArgs :: "SparkApplication \<Rightarrow> string list \<times> error option"

record 'w state =
  world :: 'w
  events :: "event list"

definition emit :: "event \<Rightarrow> 'w state \<Rightarrow> 'w state" where
  "emit e s = s\<lparr>events := events s @ [e]\<rparr>"

text \<open>The two calls of the SparkApplication client: the answer, and the call recorded.\<close>

definition clientUpdate ::
  "'w collaborators \<Rightarrow> SparkApplication \<Rightarrow> 'w state \<Rightarrow> (error + SparkApplication) \<times> 'w state" where
  "clientUpdate env toUpdate s =
     (case crd_Update env (world s) toUpdate of
        (r, w) \<Rightarrow> (r, emit (ClientUpdate toUpdate r) (s\<lparr>world := w\<rparr>)))"

definition clientGet ::
  "'w collaborators \<Rightarrow> string \<Rightarrow> string \<Rightarrow> 'w state \<Rightarrow> (error + SparkApplication) \<times> 'w state" where
  "clientGet env namespace name s =
     (case crd_Get env (world s) namespace name of
        (r, w) \<Rightarrow> (r, emit (ClientGet namespace name r) (s\<lparr>world := w\<rparr>)))"

section \<open>The status updater\<close>

text \<open>
  An update function is a Go closure that mutates the object it is given and may call
  collaborators; here it returns the mutated object and the new state.
\<close>

type_synonym 'w updateFunc = "SparkApplication \<Rightarrow> 'w state \<Rightarrow> SparkApplication \<times> 'w state"

text \<open>
  \<^verbatim>\<open>tryUpdate\<close> returns \<^verbatim>\<open>(nil, nil)\<close> as \<open>Inr None\<close>, the updated object as \<open>Inr (Some _)\<close>
  and an error as \<open>Inl _\<close>. The closure mutates \<^verbatim>\<open>toUpdate\<close> in place and the caller reads
  it afterwards, so the mutated object is returned as well.
\<close>

definition tryUpdate ::
  "'w collaborators \<Rightarrow> SparkApplication \<Rightarrow> SparkApplication \<Rightarrow> 'w updateFunc \<Rightarrow> 'w state
     \<Rightarrow> (error + SparkApplication option) \<times> SparkApplication \<times> 'w state" where
  "tryUpdate env original toUpdate updateFunc s =
     (case updateFunc toUpdate s of
        (toUpdate1, s1) \<Rightarrow>
          if Status original = Status toUpdate1 then (Inr None, toUpdate1, s1)
          else (case clientUpdate env toUpdate1 s1 of
                  (Inl err, s2) \<Rightarrow> (Inl err, toUpdate1, s2)
                | (Inr updated, s2) \<Rightarrow> (Inr (Some updated), toUpdate1, s2)))"

text \<open>
  The loop of \<^verbatim>\<open>updateSparkApplicationWithRetries\<close>, by the number of iterations left;
  \<open>lastUpdateErr\<close> is the variable of that name.
\<close>

primrec updateLoop ::
  "'w collaborators \<Rightarrow> nat \<Rightarrow> SparkApplication \<Rightarrow> SparkApplication \<Rightarrow> 'w updateFunc
     \<Rightarrow> error option \<Rightarrow> 'w state \<Rightarrow> SparkApplication option \<times> 'w state" where
  "updateLoop env 0 original toUpdate updateFunc lastUpdateErr s =
     (case lastUpdateErr of
        None \<Rightarrow> (None, s)
      | Some err \<Rightarrow>
          (None, emit (GlogErrorf ''failed to update SparkApplication %s: %v''
                        [Str (Name toUpdate), Err err]) s))"
| "updateLoop env (Suc n) original toUpdate updateFunc lastUpdateErr s =
     (case tryUpdate env original toUpdate updateFunc s of
        (Inr updated, toUpdate1, s1) \<Rightarrow> (updated, s1)
      | (Inl err, toUpdate1, s1) \<Rightarrow>
          (case clientGet env (Namespace toUpdate1) (Name toUpdate1) s1 of
             (Inl err', s2) \<Rightarrow>
               (None, emit (GlogErrorf ''failed to get SparkApplication %s: %v''
                             [Str (Name toUpdate1), Err err']) s2)
           | (Inr fetched, s2) \<Rightarrow>
               updateLoop env n original fetched updateFunc (Some err) s2))"

definition updateSparkApplicationWithRetries ::
  "'w collaborators \<Rightarrow> SparkApplication \<Rightarrow> SparkApplication \<Rightarrow> 'w updateFunc \<Rightarrow> 'w state
     \<Rightarrow> SparkApplication option \<times> 'w state" where
  "updateSparkApplicationWithRetries env original toUpdate updateFunc s =
     updateLoop env maximumUpdateRetries original toUpdate updateFunc None s"

definition getSparkApplicationFromStore ::
  "'w collaborators \<Rightarrow> string \<Rightarrow> 'w state \<Rightarrow> error + SparkApplication" where
  "getSparkApplicationFromStore env key s =
     (case store_GetByKey env (world s) key of
        Inl err \<Rightarrow> Inl err
      | Inr None \<Rightarrow> Inl (StatusError StatusFailure StatusNotFound StatusReasonNotFound)
      | Inr (Some item) \<Rightarrow> Inr item)"

section \<open>Submission\<close>

definition buildAppID :: "'w collaborators \<Rightarrow> SparkApplication \<Rightarrow> 'w state \<Rightarrow> string \<times> 'w state" where
  "buildAppID env app s =
     (case now_UnixNano env (world s) of
        (now, w) \<Rightarrow>
          (Name app @ ''-'' @
             decimal (unat (hash32 env [Name app, Namespace app, UID app, FormatInt (sint now)])),
           s\<lparr>world := w\<rparr>))"

text \<open>The closure that \<^verbatim>\<open>submitApp\<close> passes to the status updater.\<close>

definition submitAppUpdate :: "'w collaborators \<Rightarrow> bool \<Rightarrow> 'w updateFunc" where
  "submitAppUpdate env resubmission toUpdate s =
     (let toUpdate1 = (if resubmission then toUpdate\<lparr>Status := emptyStatus\<rparr> else toUpdate)
      in case buildAppID env toUpdate1 s of
           (appID, s1) \<Rightarrow>
             (let toUpdate2 = Status_update (AppID_update (\<lambda>_. appID)) toUpdate1;
                  toUpdate3 = Status_update (AppState_update (State_update (\<lambda>_. NewState))) toUpdate2
              in (toUpdate3, s1\<lparr>world := createSparkUIService env toUpdate3 (world s1)\<rparr>)))"

definition submitApp :: "'w collaborators \<Rightarrow> SparkApplication \<Rightarrow> bool \<Rightarrow> 'w state \<Rightarrow> 'w state" where
  "submitApp env app resubmission s =
     (case updateSparkApplicationWithRetries env app app (submitAppUpdate env resubmission) s of
        (None, s1) \<Rightarrow> s1
      | (Some updatedApp, s1) \<Rightarrow>
          (case buildSubmissionCommandArgs env updatedApp of
             (submissionCmdArgs, err) \<Rightarrow>
               (let s2 = (case err of
                            None \<Rightarrow> s1
                          | Some e \<Rightarrow>
                              emit (GlogErrorf
                                     ''failed to build the submission command for SparkApplication %s: %v''
                                     [Str (Name updatedApp), Err e]) s1)
                in emit (RunnerSubmit (newSubmission submissionCmdArgs updatedApp)) s2)))"

section \<open>The workers\<close>

definition syncSparkApplication :: "'w collaborators \<Rightarrow> string \<Rightarrow> 'w state \<Rightarrow> error option \<times> 'w state" where
  "syncSparkApplication env key s =
     (case getSparkApplicationFromStore env key s of
        Inl err \<Rightarrow> (Some err, s)
      | Inr app \<Rightarrow> (None, submitApp env app False s))"

text \<open>The deferred \<^verbatim>\<open>s.queue.Done(key)\<close> runs when the function returns, after the other calls.\<close>

definition processNextItem :: "'w collaborators \<Rightarrow> 'w state \<Rightarrow> bool \<times> 'w state" where
  "processNextItem env s =
     (case queue_Get env (world s) of
        ((key, quit), w) \<Rightarrow>
          if quit then (False, s\<lparr>world := w\<rparr>)
          else (case syncSparkApplication env key (s\<lparr>world := w\<rparr>) of
                  (None, s1) \<Rightarrow> (True, emit (QueueDone key) (emit (QueueForget key) s1))
                | (Some err, s1) \<Rightarrow>
                    (True,
                     emit (QueueDone key)
                       (emit (QueueAddRateLimited key)
                          (emit (HandleError ''failed to sync SparkApplication %q: %v''
                                  [Str key, Err err]) s1)))))"

section \<open>Restart evaluation\<close>

definition handleRestart :: "'w collaborators \<Rightarrow> SparkApplication \<Rightarrow> 'w state \<Rightarrow> 'w state" where
  "handleRestart env app s =
     (if RestartPolicy (Spec app) = Never \<or> RestartPolicy (Spec app) = Undefined then s
      else if (State (AppState (Status app)) = FailedState \<and> RestartPolicy (Spec app) = OnFailure)
              \<or> RestartPolicy (Spec app) = Always
      then submitApp env app True
             (emit (RecorderEventf app ''Normal'' ''SparkApplicationResubmission''
                     [Str ''Re-submitting SparkApplication: %s'', Str (Name app)])
                (emit (GlogInfof
                        ''SparkApplication %s failed or terminated, restarting it with RestartPolicy %s''
                        [Str (Name app), Policy (RestartPolicy (Spec app))]) s))
      else s)"

section \<open>The consumers of pod state updates\<close>

fun firstExternalIP :: "NodeAddress list \<Rightarrow> string" where
  "firstExternalIP [] = []"
| "firstExternalIP (address # addresses) =
     (if addr_Type address = NodeExternalIP then addr_Address address
      else firstExternalIP addresses)"

definition getNodeExternalIP :: "'w collaborators \<Rightarrow> string \<Rightarrow> 'w state \<Rightarrow> string \<times> 'w state" where
  "getNodeExternalIP env nodeName s =
     (case nodes_Get env (world s) nodeName of
        Inl err \<Rightarrow> ([], emit (GlogErrorf ''failed to get node %s'' [Str nodeName]) s)
      | Inr addresses \<Rightarrow> (firstExternalIP addresses, s))"

text \<open>The closure of \<^verbatim>\<open>processSingleDriverStateUpdate\<close>.\<close>

definition driverStateUpdateFunc :: "'w collaborators \<Rightarrow> driverStateUpdate \<Rightarrow> 'w updateFunc" where
  "driverStateUpdateFunc env update toUpdate s =
     (let toUpdate1 =
            Status_update (DriverInfo_update (PodName_update (\<lambda>_. d_podName update))) toUpdate;
          (toUpdate2, s2) =
            (if d_nodeName update = [] then (toUpdate1, s)
             else (case getNodeExternalIP env (d_nodeName update) s of
                     (nodeIP, s1) \<Rightarrow>
                       if nodeIP = [] then (toUpdate1, s1)
                       else (Status_update (DriverInfo_update (WebUIAddress_update
                               (\<lambda>_. nodeIP @ '':'' @
                                     FormatInt (sint (WebUIPort (DriverInfo (Status toUpdate1)))))))
                               toUpdate1, s1)));
          toUpdate3 =
            Status_update (AppState_update (State_update
              (\<lambda>_. driverPodPhaseToApplicationState (d_podPhase update)))) toUpdate2;
          toUpdate4 =
            (if IsZero (d_completionTime update) then toUpdate3
             else Status_update (CompletionTime_update (\<lambda>_. d_completionTime update)) toUpdate3)
      in (toUpdate4, s2))"

definition processSingleDriverStateUpdate ::
  "'w collaborators \<Rightarrow> driverStateUpdate \<Rightarrow> 'w state \<Rightarrow> SparkApplication option \<times> 'w state" where
  "processSingleDriverStateUpdate env update s =
     (case getSparkApplicationFromStore env
             (getApplicationKey (d_appNamespace update) (d_appName update)) s of
        Inl err \<Rightarrow>
          (None,
           if IsNotFound err then s
           else emit (GlogErrorf
                       ''failed to get SparkApplication %s in namespace %s from the store: %v''
                       [Str (d_appName update), Str (d_appNamespace update), Err err]) s)
      | Inr app \<Rightarrow>
          (case updateSparkApplicationWithRetries env app app (driverStateUpdateFunc env update) s of
             (None, s1) \<Rightarrow> (None, s1)
           | (Some updated, s1) \<Rightarrow>
               (Some updated,
                if isAppTerminated (State (AppState (Status updated)))
                then emit (RecorderEventf updated ''Normal'' ''SparkApplicationTermination''
                            [Str ''SparkApplication %s terminated with state: %v'',
                             Str (Name updated), AppStateArg (AppState (Status updated))]) s1
                else s1)))"

text \<open>
  The closure of \<^verbatim>\<open>processSingleExecutorStateUpdate\<close>: a nil map is replaced by a fresh
  empty one, then the entry is written unless the state is Pending.
\<close>

definition executorStateUpdateFunc :: "executorStateUpdate \<Rightarrow> 'w updateFunc" where
  "executorStateUpdateFunc update toUpdate s =
     (let m = (case ExecutorState (Status toUpdate) of
                 None \<Rightarrow> Map.empty
               | Some m0 \<Rightarrow> m0);
          m1 = (if e_state update = ExecutorPendingState then m
                else m(e_podName update \<mapsto> e_state update))
      in (Status_update (ExecutorState_update (\<lambda>_. Some m1)) toUpdate, s))"

definition processSingleExecutorStateUpdate ::
  "'w collaborators \<Rightarrow> executorStateUpdate \<Rightarrow> 'w state \<Rightarrow> 'w state" where
  "processSingleExecutorStateUpdate env update s =
     (case getSparkApplicationFromStore env
             (getApplicationKey (e_appNamespace update) (e_appName update)) s of
        Inl err \<Rightarrow>
          (if IsNotFound err then s
           else emit (GlogErrorf
                       ''failed to get SparkApplication %s in namespace %s from the store: %v''
                       [Str (e_appName update), Str (e_appNamespace update), Err err]) s)
      | Inr app \<Rightarrow>
          snd (updateSparkApplicationWithRetries env app app (executorStateUpdateFunc update) s))"

text \<open>
  \<^verbatim>\<open>processPodStateUpdates\<close> ranges over the channel of the pod monitor; the list holds
  the messages received until the channel is closed.
\<close>

fun processPodStateUpdates :: "'w collaborators \<Rightarrow> podStateUpdate list \<Rightarrow> 'w state \<Rightarrow> 'w state" where
  "processPodStateUpdates env [] s = s"
| "processPodStateUpdates env (DriverUpdate update # updates) s =
     (case processSingleDriverStateUpdate env update s of
        (None, s1) \<Rightarrow> processPodStateUpdates env updates s1
      | (Some updatedApp, s1) \<Rightarrow>
          processPodStateUpdates env updates
            (if isAppTerminated (State (AppState (Status updatedApp)))
             then handleRestart env updatedApp s1 else s1))"
| "processPodStateUpdates env (ExecutorUpdate update # updates) s =
     processPodStateUpdates env updates (processSingleExecutorStateUpdate env update s)"

section \<open>Observing a run\<close>

text \<open>
  The persistence calls of a run are the \<^verbatim>\<open>Update\<close> and \<^verbatim>\<open>Get\<close> calls of the
  SparkApplication client among its events; a persistence attempt is an \<^verbatim>\<open>Update\<close> call.
  Reading a nil Go map finds no entry, so the entries of a job's executor-state mapping
  are those of the empty map when the field is nil.
\<close>

fun isClientUpdate :: "event \<Rightarrow> bool" where
  "isClientUpdate (ClientUpdate toUpdate r) = True"
| "isClientUpdate e = False"

fun isPersistenceCall :: "event \<Rightarrow> bool" where
  "isPersistenceCall (ClientUpdate toUpdate r) = True"
| "isPersistenceCall (ClientGet namespace name r) = True"
| "isPersistenceCall e = False"

definition persistenceCalls :: "'w state \<Rightarrow> event list" where
  "persistenceCalls s = filter isPersistenceCall (events s)"

definition persistenceAttempts :: "'w state \<Rightarrow> nat" where
  "persistenceAttempts s = length (filter isClientUpdate (events s))"

definition executorEntries :: "SparkApplication \<Rightarrow> (string \<rightharpoonup> ExecutorState)" where
  "executorEntries app = (case ExecutorState (Status app) of None \<Rightarrow> Map.empty | Some m \<Rightarrow> m)"

section \<open>A scripted API server\<close>

text \<open>
  Concrete collaborators, for running the controller on an example. The world counts
  the \<^verbatim>\<open>Update\<close> calls answered so far: the first \<open>failures\<close> of them are rejected with a
  conflict, the later ones return the object they were given. \<^verbatim>\<open>Get\<close> returns \<open>latest\<close>,
  the store holds \<open>cached\<close> under the key \<^verbatim>\<open>ns1/wordcount\<close>, the queue delivers that key,
  and building the submission command fails with \<open>buildErr\<close> when there is one.
\<close>

definition conflict :: error where
  "conflict = StatusError StatusFailure 409 StatusReasonConflict"

definition wordcount :: SparkApplication where
  "wordcount =
     \<lparr>Name = ''wordcount'', Namespace = ''ns1'', UID = ''uid-1'',
      Spec = \<lparr>RestartPolicy = Never\<rparr>, Status = emptyStatus\<rparr>"

definition scripted ::
  "nat \<Rightarrow> SparkApplication \<Rightarrow> SparkApplication option \<Rightarrow> error option \<Rightarrow> nat collaborators" where
  "scripted failures latest cached buildErr =
     \<lparr>store_GetByKey = (\<lambda>w key. Inr (if key = ''ns1/wordcount'' then cached else None)),
      crd_Update = (\<lambda>w toUpdate. (if w < failures then Inl conflict else Inr toUpdate, Suc w)),
      crd_Get = (\<lambda>w namespace name. (Inr latest, w)),
      nodes_Get = (\<lambda>w nodeName. Inr []),
      now_UnixNano = (\<lambda>w. (1000, w)),
      queue_Get = (\<lambda>w. ((''ns1/wordcount'', False), w)),
      hash32 = (\<lambda>chunks. 7),
      createSparkUIService = (\<lambda>app w. w),
      buildSubmissionCommandArgs = (\<lambda>app. ([], buildErr))\<rparr>"

definition start :: "nat state" where
  "start = \<lparr>world = 0, events = []\<rparr>"

definition exec1Running :: executorStateUpdate where
  "exec1Running =
     \<lparr>e_appName = ''wordcount'', e_appNamespace = ''ns1'', e_podName = ''exec-1'',
      e_executorID = ''1'', e_state = ExecutorRunningState\<rparr>"

definition submitted :: SparkApplication where
  "submitted = Status_update (AppState_update (State_update (\<lambda>_. SubmittedState))) wordcount"

definition recorded :: "SparkApplication \<Rightarrow> SparkApplication" where
  "recorded app =
     Status_update (ExecutorState_update
       (\<lambda>_. Some (Map.empty(''exec-1'' \<mapsto> ExecutorRunningState)))) app"

definition newJob :: SparkApplication where
  "newJob =
     Status_update (AppState_update (State_update (\<lambda>_. NewState)))
       (Status_update (AppID_update (\<lambda>_. ''wordcount-7'')) wordcount)"

definition exec1Pending :: executorStateUpdate where
  "exec1Pending = exec1Running\<lparr>e_state := ExecutorPendingState\<rparr>"

text \<open>The job with its executor-state mapping replaced by a fresh empty map.\<close>

definition allocated :: "SparkApplication \<Rightarrow> SparkApplication" where
  "allocated app = Status_update (ExecutorState_update (\<lambda>_. Some Map.empty)) app"

text \<open>
  Jobs and a driver state update for the examples: \<open>job policy st\<close> is the job
  \<^verbatim>\<open>ns1/wordcount\<close> with the given restart policy and application state, and \<open>fresh app\<close> is
  what the update function of a resubmission makes of \<open>app\<close> when the hash is 7.
\<close>

definition job :: "RestartPolicy \<Rightarrow> ApplicationStateType \<Rightarrow> SparkApplication" where
  "job policy st =
     Status_update (AppState_update (State_update (\<lambda>_. st)))
       (wordcount\<lparr>Spec := \<lparr>RestartPolicy = policy\<rparr>\<rparr>)"

definition fresh :: "SparkApplication \<Rightarrow> SparkApplication" where
  "fresh app =
     Status_update (AppState_update (State_update (\<lambda>_. NewState)))
       (Status_update (AppID_update (\<lambda>_. Name app @ ''-7'')) (app\<lparr>Status := emptyStatus\<rparr>))"

definition driverFailed :: driverStateUpdate where
  "driverFailed =
     \<lparr>d_appName = ''wordcount'', d_appNamespace = ''ns1'', d_podName = ''wordcount-driver'',
      d_nodeName = [], d_podPhase = PodFailed, d_completionTime = 42\<rparr>"

text \<open>
  What \<^verbatim>\<open>handleRestart\<close> emits before it resubmits: the log line and the resubmission
  event of the recorder.
\<close>

definition announced :: "SparkApplication \<Rightarrow> event list" where
  "announced app =
     [GlogInfof ''SparkApplication %s failed or terminated, restarting it with RestartPolicy %s''
        [Str (Name app), Policy (RestartPolicy (Spec app))],
      RecorderEventf app ''Normal'' ''SparkApplicationResubmission''
        [Str ''Re-submitting SparkApplication: %s'', Str (Name app)]]"

definition terminated :: SparkApplication where
  "terminated =
     Status_update (CompletionTime_update (\<lambda>_. 42))
       (Status_update (AppState_update (State_update (\<lambda>_. FailedState)))
          (Status_update (DriverInfo_update (PodName_update (\<lambda>_. ''wordcount-driver'')))
             (job OnFailure RunningState)))"

section \<open>Facts about the recorded calls\<close>

lemma persistenceAttempts_calls:
  "persistenceAttempts s = length (filter isClientUpdate (persistenceCalls s))"
proof -
  have "\<And>e. (isPersistenceCall e \<and> isClientUpdate e) = isClientUpdate e"
    by (case_tac e) simp_all
  then show ?thesis by (simp add: persistenceAttempts_def persistenceCalls_def)
qed

lemma persistenceCalls_clientUpdate:
  "clientUpdate env a s = (r, t) \<Longrightarrow> persistenceCalls t = persistenceCalls s @ [ClientUpdate a r]"
  by (auto simp: clientUpdate_def persistenceCalls_def emit_def split: prod.splits)

lemma persistenceCalls_clientGet:
  "clientGet env ns n s = (r, t) \<Longrightarrow> persistenceCalls t = persistenceCalls s @ [ClientGet ns n r]"
  by (auto simp: clientGet_def persistenceCalls_def emit_def split: prod.splits)

lemma persistenceCalls_emit_log [simp]:
  "persistenceCalls (emit (GlogErrorf fmt args) s) = persistenceCalls s"
  by (simp add: persistenceCalls_def emit_def)

lemma tryUpdate_unchanged:
  assumes "Status (fst (updateFunc toUpdate s)) = Status original"
  shows "tryUpdate env original toUpdate updateFunc s = (Inr None, updateFunc toUpdate s)"
proof -
  obtain a1 s1 where m: "updateFunc toUpdate s = (a1, s1)" by (cases "updateFunc toUpdate s")
  with assms have "Status original = Status a1" by simp
  with m show ?thesis by (simp add: tryUpdate_def)
qed

lemma updater_unchanged:
  assumes "Status (fst (updateFunc toUpdate s)) = Status original"
  shows "updateSparkApplicationWithRetries env original toUpdate updateFunc s
           = (None, snd (updateFunc toUpdate s))"
proof -
  have "tryUpdate env original toUpdate updateFunc s = (Inr None, updateFunc toUpdate s)"
    using assms by (rule tryUpdate_unchanged)
  then show ?thesis
    by (simp add: updateSparkApplicationWithRetries_def maximumUpdateRetries_def numeral_3_eq_3
        split: prod.splits)
qed

lemma tryUpdate_calls_le:
  assumes quiet: "\<And>a t. persistenceCalls (snd (updateFunc a t)) = persistenceCalls t"
  shows "persistenceAttempts (snd (snd (tryUpdate env original toUpdate updateFunc s)))
           \<le> Suc (persistenceAttempts s)"
proof -
  obtain a1 s1 where m: "updateFunc toUpdate s = (a1, s1)" by (cases "updateFunc toUpdate s")
  from quiet [of toUpdate s] m have q: "persistenceCalls s1 = persistenceCalls s" by simp
  obtain r t where u: "clientUpdate env a1 s1 = (r, t)" by (cases "clientUpdate env a1 s1")
  from persistenceCalls_clientUpdate [OF u] q
  have "persistenceCalls t = persistenceCalls s @ [ClientUpdate a1 r]" by simp
  then have "persistenceAttempts t = Suc (persistenceAttempts s)"
    by (simp add: persistenceAttempts_calls)
  with m u q show ?thesis
    by (auto simp: tryUpdate_def persistenceAttempts_calls split: sum.splits)
qed


lemma persistenceAttempts_emit_log [simp]:
  "persistenceAttempts (emit (GlogErrorf fmt args) s) = persistenceAttempts s"
  by (simp add: persistenceAttempts_def emit_def)

lemma persistenceAttempts_clientGet:
  "clientGet env ns n s = (r, t) \<Longrightarrow> persistenceAttempts t = persistenceAttempts s"
  by (auto simp: clientGet_def persistenceAttempts_def emit_def split: prod.splits)

lemma updateLoop_attempts_le:
  assumes quiet: "\<And>a t. persistenceCalls (snd (updateFunc a t)) = persistenceCalls t"
  shows "persistenceAttempts (snd (updateLoop env n original toUpdate updateFunc lastUpdateErr s))
           \<le> persistenceAttempts s + n"
proof (induction n arbitrary: toUpdate lastUpdateErr s)
  case 0
  show ?case by (simp split: option.splits)
next
  case (Suc n)
  obtain r a1 s1 where t: "tryUpdate env original toUpdate updateFunc s = (r, a1, s1)"
    by (cases "tryUpdate env original toUpdate updateFunc s")
  from tryUpdate_calls_le [where updateFunc = updateFunc and env = env and original = original
      and toUpdate = toUpdate and s = s, OF quiet] t
  have le1: "persistenceAttempts s1 \<le> Suc (persistenceAttempts s)" by simp
  show ?case
  proof (cases r)
    case (Inr updated)
    with t le1 show ?thesis by simp
  next
    case (Inl err)
    obtain g s2 where get: "clientGet env (Namespace a1) (Name a1) s1 = (g, s2)"
      by (cases "clientGet env (Namespace a1) (Name a1) s1")
    from persistenceAttempts_clientGet [OF get] le1
    have le2: "persistenceAttempts s2 \<le> Suc (persistenceAttempts s)" by simp
    show ?thesis
    proof (cases g)
      case (Inl err')
      with Inl t get le2 \<open>r = Inl err\<close> show ?thesis by simp
    next
      case (Inr fetched)
      from Suc.IH [of fetched "Some err" s2] le2
      have "persistenceAttempts (snd (updateLoop env n original fetched updateFunc (Some err) s2))
              \<le> persistenceAttempts s + Suc n" by simp
      with Inr t get \<open>r = Inl err\<close> show ?thesis by simp
    qed
  qed
qed

lemma updateLoop_retry:
  assumes "updateFunc toUpdate s = (a, s1)" and "Status original \<noteq> Status a"
    and "clientUpdate env a s1 = (Inl e, t)"
    and "clientGet env (Namespace a) (Name a) t = (Inr b, u)"
  shows "updateLoop env (Suc n) original toUpdate updateFunc lastUpdateErr s
           = updateLoop env n original b updateFunc (Some e) u"
  using assms by (simp add: tryUpdate_def)

lemma updateLoop_success:
  assumes "updateFunc toUpdate s = (a, s1)" and "Status original \<noteq> Status a"
    and "clientUpdate env a s1 = (Inr p, t)"
  shows "updateLoop env (Suc n) original toUpdate updateFunc lastUpdateErr s = (Some p, t)"
  using assms by (simp add: tryUpdate_def)

lemma updateLoop_last_failure:
  assumes "updateFunc toUpdate s = (a, s1)" and "Status original \<noteq> Status a"
    and "clientUpdate env a s1 = (Inl e, t)"
  shows "\<exists>fmt args u. updateLoop env (Suc 0) original toUpdate updateFunc lastUpdateErr s
           = (None, emit (GlogErrorf fmt args) u)
         \<and> persistenceCalls u = persistenceCalls t @ [ClientGet (Namespace a) (Name a) (fst (clientGet env (Namespace a) (Name a) t))]"
proof -
  obtain g u where get: "clientGet env (Namespace a) (Name a) t = (g, u)"
    by (cases "clientGet env (Namespace a) (Name a) t")
  from persistenceCalls_clientGet [OF get]
  have pc: "persistenceCalls u = persistenceCalls t @ [ClientGet (Namespace a) (Name a) g]" .
  show ?thesis
  proof (cases g)
    case (Inl err')
    with assms get pc show ?thesis by (auto simp: tryUpdate_def)
  next
    case (Inr fetched)
    with assms get pc show ?thesis by (auto simp: tryUpdate_def)
  qed
qed


section \<open>The phase mapping\<close>

text \<open>
  C6. The mapping from the driver pod's phase to the application state is a function
  defined on every phase: Pending gives Submitted, Running gives Running, Succeeded gives
  Completed, Failed gives Failed, and every other phase gives Unknown.
\<close>

theorem driverPodPhaseToApplicationState_table:
  "driverPodPhaseToApplicationState PodPending = SubmittedState
   \<and> driverPodPhaseToApplicationState PodRunning = RunningState
   \<and> driverPodPhaseToApplicationState PodSucceeded = CompletedState
   \<and> driverPodPhaseToApplicationState PodFailed = FailedState
   \<and> (\<forall>podPhase. podPhase \<notin> {PodPending, PodRunning, PodSucceeded, PodFailed}
         \<longrightarrow> driverPodPhaseToApplicationState podPhase = UnknownState)"
  by (simp add: driverPodPhaseToApplicationState_def PodPending_def PodRunning_def
      PodSucceeded_def PodFailed_def)

theorem driverPodPhaseToApplicationState_table_witness:
  "''Evicted'' \<notin> {PodPending, PodRunning, PodSucceeded, PodFailed}
   \<and> driverPodPhaseToApplicationState ''Evicted'' = UnknownState
   \<and> driverPodPhaseToApplicationState PodUnknown = UnknownState
   \<and> driverPodPhaseToApplicationState [] = UnknownState"
proof -
  have a: "''Evicted'' \<notin> {PodPending, PodRunning, PodSucceeded, PodFailed}"
    by (simp add: PodPending_def PodRunning_def PodSucceeded_def PodFailed_def)
  have b: "PodUnknown \<notin> {PodPending, PodRunning, PodSucceeded, PodFailed}"
    by (simp add: PodUnknown_def PodPending_def PodRunning_def PodSucceeded_def PodFailed_def)
  have c: "[] \<notin> {PodPending, PodRunning, PodSucceeded, PodFailed}"
    by (simp add: PodPending_def PodRunning_def PodSucceeded_def PodFailed_def)
  from driverPodPhaseToApplicationState_table a b c show ?thesis
    by blast
qed

section \<open>The retry protocol of the status updater\<close>

lemma quiet_calls_eq:
  assumes "\<forall>a t. persistenceCalls (snd (updateFunc a t)) = persistenceCalls t"
  shows "updateFunc a t = (a', t') \<Longrightarrow> persistenceCalls t' = persistenceCalls t"
  using assms [rule_format, of a t] by simp

lemma updater_at_most_three:
  assumes quiet: "\<forall>a t. persistenceCalls (snd (updateFunc a t)) = persistenceCalls t"
  shows "persistenceAttempts (snd (updateSparkApplicationWithRetries env original toUpdate updateFunc s))
           \<le> persistenceAttempts s + 3"
  using updateLoop_attempts_le [where updateFunc = updateFunc and n = 3] quiet
  by (simp add: updateSparkApplicationWithRetries_def maximumUpdateRetries_def)

lemma updater_third_succeeds:
  assumes quiet: "\<forall>a t. persistenceCalls (snd (updateFunc a t)) = persistenceCalls t"
    and m1: "updateFunc toUpdate s = (a1, s1)" and d1: "Status original \<noteq> Status a1"
    and c1: "clientUpdate env a1 s1 = (Inl e1, t1)"
    and g1: "clientGet env (Namespace a1) (Name a1) t1 = (Inr b1, u1)"
    and m2: "updateFunc b1 u1 = (a2, s2)" and d2: "Status original \<noteq> Status a2"
    and c2: "clientUpdate env a2 s2 = (Inl e2, t2)"
    and g2: "clientGet env (Namespace a2) (Name a2) t2 = (Inr b2, u2)"
    and m3: "updateFunc b2 u2 = (a3, s3)" and d3: "Status original \<noteq> Status a3"
    and c3: "clientUpdate env a3 s3 = (Inr p, t3)"
  shows "updateSparkApplicationWithRetries env original toUpdate updateFunc s = (Some p, t3)"
    and "persistenceCalls t3 = persistenceCalls s @
           [ClientUpdate a1 (Inl e1), ClientGet (Namespace a1) (Name a1) (Inr b1),
            ClientUpdate a2 (Inl e2), ClientGet (Namespace a2) (Name a2) (Inr b2),
            ClientUpdate a3 (Inr p)]"
    and "persistenceAttempts t3 = persistenceAttempts s + 3"
proof -
  show "updateSparkApplicationWithRetries env original toUpdate updateFunc s = (Some p, t3)"
    by (simp only: updateSparkApplicationWithRetries_def maximumUpdateRetries_def numeral_3_eq_3
        updateLoop_retry [where updateFunc = updateFunc and toUpdate = toUpdate and s = s,
          OF m1 d1 c1 g1]
        updateLoop_retry [where updateFunc = updateFunc and toUpdate = b1 and s = u1,
          OF m2 d2 c2 g2]
        updateLoop_success [where updateFunc = updateFunc and toUpdate = b2 and s = u2,
          OF m3 d3 c3])
  show pc: "persistenceCalls t3 = persistenceCalls s @
           [ClientUpdate a1 (Inl e1), ClientGet (Namespace a1) (Name a1) (Inr b1),
            ClientUpdate a2 (Inl e2), ClientGet (Namespace a2) (Name a2) (Inr b2),
            ClientUpdate a3 (Inr p)]"
    using
      quiet_calls_eq [where updateFunc = updateFunc and a = toUpdate and t = s, OF quiet m1]
      quiet_calls_eq [where updateFunc = updateFunc and a = b1 and t = u1, OF quiet m2]
      quiet_calls_eq [where updateFunc = updateFunc and a = b2 and t = u2, OF quiet m3]
      persistenceCalls_clientUpdate [OF c1] persistenceCalls_clientUpdate [OF c2]
      persistenceCalls_clientUpdate [OF c3]
      persistenceCalls_clientGet [OF g1] persistenceCalls_clientGet [OF g2]
    by simp
  show "persistenceAttempts t3 = persistenceAttempts s + 3"
    by (simp add: persistenceAttempts_calls pc)
qed

lemma updater_third_fails:
  assumes quiet: "\<forall>a t. persistenceCalls (snd (updateFunc a t)) = persistenceCalls t"
    and m1: "updateFunc toUpdate s = (a1, s1)" and d1: "Status original \<noteq> Status a1"
    and c1: "clientUpdate env a1 s1 = (Inl e1, t1)"
    and g1: "clientGet env (Namespace a1) (Name a1) t1 = (Inr b1, u1)"
    and m2: "updateFunc b1 u1 = (a2, s2)" and d2: "Status original \<noteq> Status a2"
    and c2: "clientUpdate env a2 s2 = (Inl e2, t2)"
    and g2: "clientGet env (Namespace a2) (Name a2) t2 = (Inr b2, u2)"
    and m3: "updateFunc b2 u2 = (a3, s3)" and d3: "Status original \<noteq> Status a3"
    and c3: "clientUpdate env a3 s3 = (Inl e3, t3)"
  shows "fst (updateSparkApplicationWithRetries env original toUpdate updateFunc s) = None"
    and "persistenceAttempts (snd (updateSparkApplicationWithRetries env original toUpdate updateFunc s))
           = persistenceAttempts s + 3"
    and "\<exists>fmt args u. snd (updateSparkApplicationWithRetries env original toUpdate updateFunc s)
           = emit (GlogErrorf fmt args) u"
proof -
  have unfold: "updateSparkApplicationWithRetries env original toUpdate updateFunc s
                  = updateLoop env (Suc 0) original b2 updateFunc (Some e2) u2"
    by (simp only: updateSparkApplicationWithRetries_def maximumUpdateRetries_def numeral_3_eq_3
        updateLoop_retry [where updateFunc = updateFunc and toUpdate = toUpdate and s = s,
          OF m1 d1 c1 g1]
        updateLoop_retry [where updateFunc = updateFunc and toUpdate = b1 and s = u1,
          OF m2 d2 c2 g2])
  from updateLoop_last_failure [where updateFunc = updateFunc and toUpdate = b2 and s = u2
      and lastUpdateErr = "Some e2", OF m3 d3 c3]
  obtain fmt args u where
    last: "updateLoop env (Suc 0) original b2 updateFunc (Some e2) u2
             = (None, emit (GlogErrorf fmt args) u)"
    and pcu: "persistenceCalls u = persistenceCalls t3 @
                [ClientGet (Namespace a3) (Name a3) (fst (clientGet env (Namespace a3) (Name a3) t3))]"
    by blast
  have pc3: "persistenceCalls t3 = persistenceCalls s @
           [ClientUpdate a1 (Inl e1), ClientGet (Namespace a1) (Name a1) (Inr b1),
            ClientUpdate a2 (Inl e2), ClientGet (Namespace a2) (Name a2) (Inr b2),
            ClientUpdate a3 (Inl e3)]"
    using
      quiet_calls_eq [where updateFunc = updateFunc and a = toUpdate and t = s, OF quiet m1]
      quiet_calls_eq [where updateFunc = updateFunc and a = b1 and t = u1, OF quiet m2]
      quiet_calls_eq [where updateFunc = updateFunc and a = b2 and t = u2, OF quiet m3]
      persistenceCalls_clientUpdate [OF c1] persistenceCalls_clientUpdate [OF c2]
      persistenceCalls_clientUpdate [OF c3]
      persistenceCalls_clientGet [OF g1] persistenceCalls_clientGet [OF g2]
    by simp
  have res: "updateSparkApplicationWithRetries env original toUpdate updateFunc s
               = (None, emit (GlogErrorf fmt args) u)"
    using unfold last by (rule trans)
  show "fst (updateSparkApplicationWithRetries env original toUpdate updateFunc s) = None"
    by (simp add: res)
  show "persistenceAttempts (snd (updateSparkApplicationWithRetries env original toUpdate updateFunc s))
           = persistenceAttempts s + 3"
    by (simp add: res persistenceAttempts_calls pcu pc3)
  show "\<exists>fmt args u. snd (updateSparkApplicationWithRetries env original toUpdate updateFunc s)
           = emit (GlogErrorf fmt args) u"
    by (auto simp: res)
qed


text \<open>
  The three update functions of the controller make no persistence call of their own;
  the driver's may log, and the submission's changes the world only.
\<close>

lemma executorStateUpdateFunc_quiet:
  "persistenceCalls (snd (executorStateUpdateFunc update a t)) = persistenceCalls t"
  by (simp add: executorStateUpdateFunc_def Let_def)

lemma submitAppUpdate_quiet:
  "persistenceCalls (snd (submitAppUpdate env resubmission a t)) = persistenceCalls t"
  by (simp add: submitAppUpdate_def buildAppID_def Let_def persistenceCalls_def split: prod.splits)

lemma getNodeExternalIP_quiet:
  "persistenceCalls (snd (getNodeExternalIP env nodeName t)) = persistenceCalls t"
  by (simp add: getNodeExternalIP_def split: sum.splits)

lemma driverStateUpdateFunc_quiet:
  "persistenceCalls (snd (driverStateUpdateFunc env update a t)) = persistenceCalls t"
proof -
  obtain ip t1 where g: "getNodeExternalIP env (d_nodeName update) t = (ip, t1)"
    by (cases "getNodeExternalIP env (d_nodeName update) t")
  with getNodeExternalIP_quiet [of env "d_nodeName update" t]
  have "persistenceCalls t1 = persistenceCalls t" by simp
  with g show ?thesis
    by (simp add: driverStateUpdateFunc_def Let_def split: prod.splits)
qed

text \<open>
  C3. The status updater makes at most three persistence attempts (for an update function
  that makes no persistence call of its own). When an attempt fails, the updater fetches
  the latest version of the object and applies the same update function to the fetched
  copy before the next attempt. When the first two attempts fail and the third succeeds,
  the updater returns the object that the third \<^verbatim>\<open>Update\<close> returned, for the update function
  applied to the copy fetched last, and the persistence calls of the run are exactly
  Update, Get, Update, Get, Update. When the third attempt fails as well, the updater
  logs an error and returns nil; there is no error result to escalate.
\<close>

theorem updateSparkApplicationWithRetries_three_attempts:
  "(\<forall>a t. persistenceCalls (snd (updateFunc a t)) = persistenceCalls t) \<longrightarrow>
     persistenceAttempts (snd (updateSparkApplicationWithRetries env original toUpdate updateFunc s))
       \<le> persistenceAttempts s + 3
     \<and> (updateFunc toUpdate s = (a1, s1) \<and> Status original \<noteq> Status a1
          \<and> clientUpdate env a1 s1 = (Inl e1, t1)
          \<and> clientGet env (Namespace a1) (Name a1) t1 = (Inr b1, u1)
          \<and> updateFunc b1 u1 = (a2, s2) \<and> Status original \<noteq> Status a2
          \<and> clientUpdate env a2 s2 = (Inl e2, t2)
          \<and> clientGet env (Namespace a2) (Name a2) t2 = (Inr b2, u2)
          \<and> updateFunc b2 u2 = (a3, s3) \<and> Status original \<noteq> Status a3
        \<longrightarrow>
          (\<forall>p t3. clientUpdate env a3 s3 = (Inr p, t3) \<longrightarrow>
             updateSparkApplicationWithRetries env original toUpdate updateFunc s = (Some p, t3)
             \<and> persistenceCalls t3 = persistenceCalls s @
                  [ClientUpdate a1 (Inl e1), ClientGet (Namespace a1) (Name a1) (Inr b1),
                   ClientUpdate a2 (Inl e2), ClientGet (Namespace a2) (Name a2) (Inr b2),
                   ClientUpdate a3 (Inr p)]
             \<and> persistenceAttempts t3 = persistenceAttempts s + 3)
          \<and> (\<forall>e3 t3. clientUpdate env a3 s3 = (Inl e3, t3) \<longrightarrow>
             fst (updateSparkApplicationWithRetries env original toUpdate updateFunc s) = None
             \<and> persistenceAttempts
                  (snd (updateSparkApplicationWithRetries env original toUpdate updateFunc s))
                 = persistenceAttempts s + 3
             \<and> (\<exists>fmt args u.
                  snd (updateSparkApplicationWithRetries env original toUpdate updateFunc s)
                    = emit (GlogErrorf fmt args) u)))"
proof (intro impI conjI allI)
  assume quiet: "\<forall>a t. persistenceCalls (snd (updateFunc a t)) = persistenceCalls t"
  show "persistenceAttempts (snd (updateSparkApplicationWithRetries env original toUpdate updateFunc s))
          \<le> persistenceAttempts s + 3"
    using quiet by (rule updater_at_most_three)
next
  fix p t3
  assume quiet: "\<forall>a t. persistenceCalls (snd (updateFunc a t)) = persistenceCalls t"
    and chain: "updateFunc toUpdate s = (a1, s1) \<and> Status original \<noteq> Status a1
          \<and> clientUpdate env a1 s1 = (Inl e1, t1)
          \<and> clientGet env (Namespace a1) (Name a1) t1 = (Inr b1, u1)
          \<and> updateFunc b1 u1 = (a2, s2) \<and> Status original \<noteq> Status a2
          \<and> clientUpdate env a2 s2 = (Inl e2, t2)
          \<and> clientGet env (Namespace a2) (Name a2) t2 = (Inr b2, u2)
          \<and> updateFunc b2 u2 = (a3, s3) \<and> Status original \<noteq> Status a3"
    and c3: "clientUpdate env a3 s3 = (Inr p, t3)"
  note ok = updater_third_succeeds [where updateFunc = updateFunc and toUpdate = toUpdate
      and s = s and env = env and original = original and ?a1.0 = a1 and ?s1.0 = s1
      and ?e1.0 = e1 and ?t1.0 = t1 and ?b1.0 = b1 and ?u1.0 = u1 and ?a2.0 = a2 and ?s2.0 = s2
      and ?e2.0 = e2 and ?t2.0 = t2 and ?b2.0 = b2 and ?u2.0 = u2 and ?a3.0 = a3 and ?s3.0 = s3
      and p = p and ?t3.0 = t3]
  from quiet chain c3 show
    "updateSparkApplicationWithRetries env original toUpdate updateFunc s = (Some p, t3)"
    by (intro ok(1)) simp_all
  from quiet chain c3 show "persistenceCalls t3 = persistenceCalls s @
                  [ClientUpdate a1 (Inl e1), ClientGet (Namespace a1) (Name a1) (Inr b1),
                   ClientUpdate a2 (Inl e2), ClientGet (Namespace a2) (Name a2) (Inr b2),
                   ClientUpdate a3 (Inr p)]"
    by (intro ok(2)) simp_all
  from quiet chain c3 show "persistenceAttempts t3 = persistenceAttempts s + 3"
    by (intro ok(3)) simp_all
next
  fix e3 t3
  assume quiet: "\<forall>a t. persistenceCalls (snd (updateFunc a t)) = persistenceCalls t"
    and chain: "updateFunc toUpdate s = (a1, s1) \<and> Status original \<noteq> Status a1
          \<and> clientUpdate env a1 s1 = (Inl e1, t1)
          \<and> clientGet env (Namespace a1) (Name a1) t1 = (Inr b1, u1)
          \<and> updateFunc b1 u1 = (a2, s2) \<and> Status original \<noteq> Status a2
          \<and> clientUpdate env a2 s2 = (Inl e2, t2)
          \<and> clientGet env (Namespace a2) (Name a2) t2 = (Inr b2, u2)
          \<and> updateFunc b2 u2 = (a3, s3) \<and> Status original \<noteq> Status a3"
    and c3: "clientUpdate env a3 s3 = (Inl e3, t3)"
  note ko = updater_third_fails [where updateFunc = updateFunc and toUpdate = toUpdate
      and s = s and env = env and original = original and ?a1.0 = a1 and ?s1.0 = s1
      and ?e1.0 = e1 and ?t1.0 = t1 and ?b1.0 = b1 and ?u1.0 = u1 and ?a2.0 = a2 and ?s2.0 = s2
      and ?e2.0 = e2 and ?t2.0 = t2 and ?b2.0 = b2 and ?u2.0 = u2 and ?a3.0 = a3 and ?s3.0 = s3
      and ?e3.0 = e3 and ?t3.0 = t3]
  from quiet chain c3 show
    "fst (updateSparkApplicationWithRetries env original toUpdate updateFunc s) = None"
    by (intro ko(1)) simp_all
  from quiet chain c3 show
    "persistenceAttempts (snd (updateSparkApplicationWithRetries env original toUpdate updateFunc s))
       = persistenceAttempts s + 3"
    by (intro ko(2)) simp_all
  from quiet chain c3 show
    "\<exists>fmt args u. snd (updateSparkApplicationWithRetries env original toUpdate updateFunc s)
       = emit (GlogErrorf fmt args) u"
    by (intro ko(3)) simp_all
qed


lemma exec1Running_apply:
  "ExecutorState (Status app) = None \<Longrightarrow>
     executorStateUpdateFunc exec1Running app t = (recorded app, t)"
  by (simp add: executorStateUpdateFunc_def exec1Running_def recorded_def Let_def)

lemma scripted_clientUpdate:
  "clientUpdate (scripted failures latest cached buildErr) a \<lparr>world = w, events = evs\<rparr>
     = (if w < failures then Inl conflict else Inr a,
        \<lparr>world = Suc w,
         events = evs @ [ClientUpdate a (if w < failures then Inl conflict else Inr a)]\<rparr>)"
  by (simp add: clientUpdate_def scripted_def emit_def)

lemma scripted_clientGet:
  "clientGet (scripted failures latest cached buildErr) namespace name \<lparr>world = w, events = evs\<rparr>
     = (Inr latest, \<lparr>world = w, events = evs @ [ClientGet namespace name (Inr latest)]\<rparr>)"
  by (simp add: clientGet_def scripted_def emit_def)

lemma recorded_differs: "Status wordcount \<noteq> Status (recorded app)"
proof
  assume "Status wordcount = Status (recorded app)"
  then have "ExecutorState (Status wordcount) = ExecutorState (Status (recorded app))"
    by simp
  then show False
    by (simp add: wordcount_def recorded_def emptyStatus_def)
qed

lemma submitted_nil: "ExecutorState (Status submitted) = None"
  by (simp add: submitted_def wordcount_def emptyStatus_def)

lemma wordcount_nil: "ExecutorState (Status wordcount) = None"
  by (simp add: wordcount_def emptyStatus_def)

theorem updateSparkApplicationWithRetries_three_attempts_witness:
  "updateSparkApplicationWithRetries (scripted 2 submitted (Some wordcount) None)
      wordcount wordcount (executorStateUpdateFunc exec1Running) start
     = (Some (recorded submitted),
        \<lparr>world = 3,
         events = [ClientUpdate (recorded wordcount) (Inl conflict),
                   ClientGet ''ns1'' ''wordcount'' (Inr submitted),
                   ClientUpdate (recorded submitted) (Inl conflict),
                   ClientGet ''ns1'' ''wordcount'' (Inr submitted),
                   ClientUpdate (recorded submitted) (Inr (recorded submitted))]\<rparr>)
   \<and> fst (updateSparkApplicationWithRetries (scripted 3 submitted (Some wordcount) None)
            wordcount wordcount (executorStateUpdateFunc exec1Running) start) = None
   \<and> persistenceAttempts
        (snd (updateSparkApplicationWithRetries (scripted 3 submitted (Some wordcount) None)
               wordcount wordcount (executorStateUpdateFunc exec1Running) start)) = 3"
proof -
  let ?f = "executorStateUpdateFunc exec1Running :: nat updateFunc"
  let ?t1 = "\<lparr>world = Suc 0, events = [ClientUpdate (recorded wordcount) (Inl conflict)]\<rparr>"
  let ?u1 = "\<lparr>world = Suc 0, events = [ClientUpdate (recorded wordcount) (Inl conflict),
                   ClientGet ''ns1'' ''wordcount'' (Inr submitted)]\<rparr>"
  let ?t2 = "\<lparr>world = Suc (Suc 0), events = [ClientUpdate (recorded wordcount) (Inl conflict),
                   ClientGet ''ns1'' ''wordcount'' (Inr submitted),
                   ClientUpdate (recorded submitted) (Inl conflict)]\<rparr>"
  let ?u2 = "\<lparr>world = Suc (Suc 0), events = [ClientUpdate (recorded wordcount) (Inl conflict),
                   ClientGet ''ns1'' ''wordcount'' (Inr submitted),
                   ClientUpdate (recorded submitted) (Inl conflict),
                   ClientGet ''ns1'' ''wordcount'' (Inr submitted)]\<rparr>"
  have quiet: "\<forall>a t. persistenceCalls (snd (?f a t)) = persistenceCalls t"
    by (simp add: executorStateUpdateFunc_def Let_def)
  have names: "Namespace (recorded wordcount) = ''ns1''" "Name (recorded wordcount) = ''wordcount''"
    "Namespace (recorded submitted) = ''ns1''" "Name (recorded submitted) = ''wordcount''"
    by (simp_all add: recorded_def submitted_def wordcount_def)
  have att0: "persistenceAttempts \<lparr>world = 0::nat, events = []\<rparr> = 0"
    by (simp add: persistenceAttempts_def)
  note facts = exec1Running_apply [OF wordcount_nil] exec1Running_apply [OF submitted_nil]
    scripted_clientUpdate scripted_clientGet recorded_differs names start_def
  from updateSparkApplicationWithRetries_three_attempts
    [where updateFunc = ?f and env = "scripted 2 submitted (Some wordcount) None"
       and original = wordcount and toUpdate = wordcount and s = start
       and ?a1.0 = "recorded wordcount" and ?s1.0 = start and ?e1.0 = conflict and ?t1.0 = ?t1
       and ?b1.0 = submitted and ?u1.0 = ?u1
       and ?a2.0 = "recorded submitted" and ?s2.0 = ?u1 and ?e2.0 = conflict and ?t2.0 = ?t2
       and ?b2.0 = submitted and ?u2.0 = ?u2
       and ?a3.0 = "recorded submitted" and ?s3.0 = ?u2] quiet
  have ok: "updateSparkApplicationWithRetries (scripted 2 submitted (Some wordcount) None)
      wordcount wordcount ?f start
     = (Some (recorded submitted),
        \<lparr>world = 3,
         events = [ClientUpdate (recorded wordcount) (Inl conflict),
                   ClientGet ''ns1'' ''wordcount'' (Inr submitted),
                   ClientUpdate (recorded submitted) (Inl conflict),
                   ClientGet ''ns1'' ''wordcount'' (Inr submitted),
                   ClientUpdate (recorded submitted) (Inr (recorded submitted))]\<rparr>)"
    by (simp add: facts numeral_3_eq_3)
  from updateSparkApplicationWithRetries_three_attempts
    [where updateFunc = ?f and env = "scripted 3 submitted (Some wordcount) None"
       and original = wordcount and toUpdate = wordcount and s = start
       and ?a1.0 = "recorded wordcount" and ?s1.0 = start and ?e1.0 = conflict and ?t1.0 = ?t1
       and ?b1.0 = submitted and ?u1.0 = ?u1
       and ?a2.0 = "recorded submitted" and ?s2.0 = ?u1 and ?e2.0 = conflict and ?t2.0 = ?t2
       and ?b2.0 = submitted and ?u2.0 = ?u2
       and ?a3.0 = "recorded submitted" and ?s3.0 = ?u2] quiet
  have ko: "fst (updateSparkApplicationWithRetries (scripted 3 submitted (Some wordcount) None)
            wordcount wordcount ?f start) = None
     \<and> persistenceAttempts
        (snd (updateSparkApplicationWithRetries (scripted 3 submitted (Some wordcount) None)
               wordcount wordcount ?f start)) = 3"
    by (simp add: facts att0 numeral_3_eq_3)
  from ok ko show ?thesis by simp
qed

lemma decimal_7: "decimal 7 = ''7''"
  by (simp add: decimal.simps)

lemma scripted_submitAppUpdate:
  "submitAppUpdate (scripted failures latest cached buildErr) resubmission app s
     = (Status_update (AppState_update (State_update (\<lambda>_. NewState)))
         (Status_update (AppID_update (\<lambda>_. Name app @ ''-7''))
           (if resubmission then app\<lparr>Status := emptyStatus\<rparr> else app)), s)"
  by (simp add: submitAppUpdate_def buildAppID_def scripted_def decimal_7 Let_def)

section \<open>An update that changes nothing\<close>

text \<open>
  C4. When the update function leaves the status of the copy equal to the status of the
  original, \<^verbatim>\<open>tryUpdate\<close> returns \<^verbatim>\<open>(nil, nil)\<close>, the status updater returns nil, and the
  state it leaves is the one the update function left: the updater itself makes no
  persistence call.
\<close>

theorem updateSparkApplicationWithRetries_no_change:
  "Status (fst (updateFunc toUpdate s)) = Status original \<Longrightarrow>
     tryUpdate env original toUpdate updateFunc s = (Inr None, updateFunc toUpdate s)
     \<and> updateSparkApplicationWithRetries env original toUpdate updateFunc s
         = (None, snd (updateFunc toUpdate s))
     \<and> persistenceCalls (snd (updateSparkApplicationWithRetries env original toUpdate updateFunc s))
         = persistenceCalls (snd (updateFunc toUpdate s))"
proof -
  assume same: "Status (fst (updateFunc toUpdate s)) = Status original"
  have t: "tryUpdate env original toUpdate updateFunc s = (Inr None, updateFunc toUpdate s)"
    using same by (rule tryUpdate_unchanged)
  have u: "updateSparkApplicationWithRetries env original toUpdate updateFunc s
         = (None, snd (updateFunc toUpdate s))"
    using same by (rule updater_unchanged)
  from t u show ?thesis by simp
qed

theorem updateSparkApplicationWithRetries_no_change_witness:
  "Status (fst (executorStateUpdateFunc exec1Running (recorded wordcount) start))
     = Status (recorded wordcount)
   \<and> updateSparkApplicationWithRetries (scripted 0 submitted (Some (recorded wordcount)) None)
        (recorded wordcount) (recorded wordcount) (executorStateUpdateFunc exec1Running) start
       = (None, start)
   \<and> persistenceCalls
        (snd (updateSparkApplicationWithRetries (scripted 0 submitted (Some (recorded wordcount)) None)
          (recorded wordcount) (recorded wordcount) (executorStateUpdateFunc exec1Running) start))
       = []"
proof -
  have again: "executorStateUpdateFunc exec1Running (recorded wordcount) start
                 = (recorded wordcount, start)"
    by (simp add: executorStateUpdateFunc_def exec1Running_def recorded_def Let_def)
  have none: "persistenceCalls start = []"
    by (simp add: persistenceCalls_def start_def)
  from updateSparkApplicationWithRetries_no_change
    [where updateFunc = "executorStateUpdateFunc exec1Running" and toUpdate = "recorded wordcount"
       and s = start and original = "recorded wordcount"
       and env = "scripted 0 submitted (Some (recorded wordcount)) None"]
  show ?thesis by (simp add: again none)
qed

section \<open>Resubmission\<close>

text \<open>
  C7. The update function of \<^verbatim>\<open>submitApp(app, true)\<close> yields the empty status with a fresh
  application ID and the state New: the driver information, the executor states, the
  submission and completion times and the error message are at their zero values.
\<close>

theorem submitApp_resubmission_resets_status:
  "Status (fst (submitAppUpdate env True toUpdate s))
     = emptyStatus
         \<lparr>AppID := fst (buildAppID env (toUpdate\<lparr>Status := emptyStatus\<rparr>) s),
          AppState := \<lparr>State = NewState, ErrorMessage = []\<rparr>\<rparr>
   \<and> DriverInfo (Status (fst (submitAppUpdate env True toUpdate s))) = emptyDriverInfo
   \<and> ExecutorState (Status (fst (submitAppUpdate env True toUpdate s))) = None
   \<and> SubmissionTime (Status (fst (submitAppUpdate env True toUpdate s))) = 0
   \<and> CompletionTime (Status (fst (submitAppUpdate env True toUpdate s))) = 0
   \<and> ErrorMessage (AppState (Status (fst (submitAppUpdate env True toUpdate s)))) = []
   \<and> State (AppState (Status (fst (submitAppUpdate env True toUpdate s)))) = NewState
   \<and> AppID (Status (fst (submitAppUpdate env True toUpdate s)))
       = fst (buildAppID env (toUpdate\<lparr>Status := emptyStatus\<rparr>) s)"
  by (simp add: submitAppUpdate_def Let_def emptyStatus_def split: prod.splits)

section \<open>Executor state updates\<close>

lemma pending_apply:
  "e_state update = ExecutorPendingState \<Longrightarrow>
     executorStateUpdateFunc update a t
       = (Status_update (ExecutorState_update (\<lambda>_. Some (executorEntries a))) a, t)"
  by (simp add: executorStateUpdateFunc_def executorEntries_def Let_def)

lemma executorEntries_allocated [simp]:
  "executorEntries (Status_update (ExecutorState_update (\<lambda>_. Some m)) a) = m"
  by (simp add: executorEntries_def)

lemma pending_entries:
  "e_state update = ExecutorPendingState \<Longrightarrow>
     executorEntries (fst (executorStateUpdateFunc update a t)) = executorEntries a"
  by (simp add: pending_apply)

lemma updateLoop_pending_writes:
  assumes pend: "e_state update = ExecutorPendingState"
  shows "\<exists>new. events (snd (updateLoop env n original toUpdate (executorStateUpdateFunc update)
                               lastUpdateErr s)) = events s @ new
           \<and> (\<forall>a r. ClientUpdate a r \<in> set new \<longrightarrow>
                  executorEntries a = executorEntries toUpdate
                  \<or> (\<exists>ns nm b. ClientGet ns nm (Inr b) \<in> set new
                        \<and> executorEntries a = executorEntries b))"
proof (induction n arbitrary: toUpdate lastUpdateErr s)
  case 0
  show ?case by (cases lastUpdateErr) (simp_all add: emit_def)
next
  case (Suc n)
  let ?f = "executorStateUpdateFunc update :: 'a updateFunc"
  let ?a1 = "Status_update (ExecutorState_update (\<lambda>_. Some (executorEntries toUpdate))) toUpdate"
  have m: "?f toUpdate s = (?a1, s)" using pend by (rule pending_apply)
  have e1: "executorEntries ?a1 = executorEntries toUpdate" by simp
  show ?case
  proof (cases "Status original = Status ?a1")
    case True
    with m show ?thesis by (simp add: tryUpdate_def)
  next
    case differs: False
    obtain r s1 where u: "clientUpdate env ?a1 s = (r, s1)" by (cases "clientUpdate env ?a1 s")
    then have ev1: "events s1 = events s @ [ClientUpdate ?a1 r]"
      by (auto simp: clientUpdate_def emit_def split: prod.splits)
    show ?thesis
    proof (cases r)
      case (Inr p)
      with m differs u ev1 e1 show ?thesis by (simp add: tryUpdate_def)
    next
      case (Inl err)
      obtain g s2 where get: "clientGet env (Namespace ?a1) (Name ?a1) s1 = (g, s2)"
        by (cases "clientGet env (Namespace ?a1) (Name ?a1) s1")
      then have ev2: "events s2 = events s @ [ClientUpdate ?a1 r, ClientGet (Namespace ?a1) (Name ?a1) g]"
        using ev1 by (auto simp: clientGet_def emit_def split: prod.splits)
      have step: "tryUpdate env original toUpdate ?f s = (Inl err, ?a1, s1)"
        using m differs u Inl by (simp add: tryUpdate_def)
      show ?thesis
      proof (cases g)
        case failed: (Inl err')
        have "updateLoop env (Suc n) original toUpdate ?f lastUpdateErr s
                = (None, emit (GlogErrorf ''failed to get SparkApplication %s: %v''
                                [Str (Name ?a1), Err err']) s2)"
          using step get failed by simp
        with ev2 e1 show ?thesis by (simp add: emit_def)
      next
        case fetched: (Inr b)
        have loop: "updateLoop env (Suc n) original toUpdate ?f lastUpdateErr s
                = updateLoop env n original b ?f (Some err) s2"
          using step get fetched by simp
        from Suc.IH [of b "Some err" s2] obtain new where
          ev: "events (snd (updateLoop env n original b ?f (Some err) s2)) = events s2 @ new"
          and wr: "\<forall>a r. ClientUpdate a r \<in> set new \<longrightarrow>
                  executorEntries a = executorEntries b
                  \<or> (\<exists>ns nm b'. ClientGet ns nm (Inr b') \<in> set new
                        \<and> executorEntries a = executorEntries b')"
          by blast
        let ?new = "[ClientUpdate ?a1 r, ClientGet (Namespace ?a1) (Name ?a1) (Inr b)] @ new"
        have "events (snd (updateLoop env (Suc n) original toUpdate ?f lastUpdateErr s))
                = events s @ ?new"
          using loop ev ev2 fetched by simp
        moreover have "\<forall>a r. ClientUpdate a r \<in> set ?new \<longrightarrow>
                  executorEntries a = executorEntries toUpdate
                  \<or> (\<exists>ns nm b'. ClientGet ns nm (Inr b') \<in> set ?new
                        \<and> executorEntries a = executorEntries b')"
        proof (intro allI impI)
          fix a r'
          assume "ClientUpdate a r' \<in> set ?new"
          then consider "a = ?a1" | "ClientUpdate a r' \<in> set new" by auto
          then show "executorEntries a = executorEntries toUpdate
                  \<or> (\<exists>ns nm b'. ClientGet ns nm (Inr b') \<in> set ?new
                        \<and> executorEntries a = executorEntries b')"
          proof cases
            case 1
            then show ?thesis using e1 by simp
          next
            case 2
            with wr have "executorEntries a = executorEntries b
                  \<or> (\<exists>ns nm b'. ClientGet ns nm (Inr b') \<in> set new
                        \<and> executorEntries a = executorEntries b')" by blast
            then show ?thesis
            proof
              assume "executorEntries a = executorEntries b"
              then have "ClientGet (Namespace ?a1) (Name ?a1) (Inr b) \<in> set ?new
                           \<and> executorEntries a = executorEntries b" by simp
              then show ?thesis by blast
            next
              assume "\<exists>ns nm b'. ClientGet ns nm (Inr b') \<in> set new
                        \<and> executorEntries a = executorEntries b'"
              then obtain ns nm b' where "ClientGet ns nm (Inr b') \<in> set new"
                and "executorEntries a = executorEntries b'" by blast
              then have "ClientGet ns nm (Inr b') \<in> set ?new
                           \<and> executorEntries a = executorEntries b'" by simp
              then show ?thesis by blast
            qed
          qed
        qed
        ultimately show ?thesis by blast
      qed
    qed
  qed
qed

lemma exec1Pending_apply:
  "ExecutorState (Status app) = None \<Longrightarrow>
     executorStateUpdateFunc exec1Pending app t = (allocated app, t)"
  by (simp add: executorStateUpdateFunc_def exec1Pending_def exec1Running_def allocated_def Let_def)

lemma allocated_differs: "Status wordcount \<noteq> Status (allocated app)"
proof
  assume "Status wordcount = Status (allocated app)"
  then have "ExecutorState (Status wordcount) = ExecutorState (Status (allocated app))"
    by simp
  then show False
    by (simp add: wordcount_def allocated_def emptyStatus_def)
qed

lemma scripted_store:
  "getSparkApplicationFromStore (scripted failures latest (Some app) buildErr) ''ns1/wordcount'' s
     = Inr app"
  "getSparkApplicationFromStore (scripted failures latest None buildErr) ''ns1/wordcount'' s
     = Inl (StatusError StatusFailure StatusNotFound StatusReasonNotFound)"
  by (simp_all add: getSparkApplicationFromStore_def scripted_def)

text \<open>
  C8. An executor state update with the state Pending leaves the entries of the
  executor-state mapping as they are, and every object that processing the update sends
  to \<^verbatim>\<open>Update\<close> carries the entries of the version it was made from: the cached object or
  the object fetched before the retry.
\<close>

theorem executor_pending_not_written:
  "e_state update = ExecutorPendingState \<Longrightarrow>
     executorEntries (fst (executorStateUpdateFunc update toUpdate s)) = executorEntries toUpdate
     \<and> (\<exists>new. events (processSingleExecutorStateUpdate env update s) = events s @ new
          \<and> (\<forall>a r. ClientUpdate a r \<in> set new \<longrightarrow>
                (\<exists>base. (getSparkApplicationFromStore env
                            (getApplicationKey (e_appNamespace update) (e_appName update)) s
                              = Inr base
                          \<or> (\<exists>ns nm. ClientGet ns nm (Inr base) \<in> set new))
                        \<and> executorEntries a = executorEntries base)))"
proof -
  assume pend: "e_state update = ExecutorPendingState"
  let ?key = "getApplicationKey (e_appNamespace update) (e_appName update)"
  have "\<exists>new. events (processSingleExecutorStateUpdate env update s) = events s @ new
          \<and> (\<forall>a r. ClientUpdate a r \<in> set new \<longrightarrow>
                (\<exists>base. (getSparkApplicationFromStore env ?key s = Inr base
                          \<or> (\<exists>ns nm. ClientGet ns nm (Inr base) \<in> set new))
                        \<and> executorEntries a = executorEntries base))"
  proof (cases "getSparkApplicationFromStore env ?key s")
    case (Inl err)
    then show ?thesis
      by (simp add: processSingleExecutorStateUpdate_def emit_def)
  next
    case (Inr app)
    from updateLoop_pending_writes [OF pend, of env maximumUpdateRetries app app None s]
    obtain new where
      ev: "events (snd (updateSparkApplicationWithRetries env app app
                          (executorStateUpdateFunc update) s)) = events s @ new"
      and wr: "\<forall>a r. ClientUpdate a r \<in> set new \<longrightarrow>
                  executorEntries a = executorEntries app
                  \<or> (\<exists>ns nm b. ClientGet ns nm (Inr b) \<in> set new
                        \<and> executorEntries a = executorEntries b)"
      unfolding updateSparkApplicationWithRetries_def by blast
    from ev Inr have "events (processSingleExecutorStateUpdate env update s) = events s @ new"
      by (simp add: processSingleExecutorStateUpdate_def)
    moreover from wr Inr have "\<forall>a r. ClientUpdate a r \<in> set new \<longrightarrow>
                (\<exists>base. (getSparkApplicationFromStore env ?key s = Inr base
                          \<or> (\<exists>ns nm. ClientGet ns nm (Inr base) \<in> set new))
                        \<and> executorEntries a = executorEntries base)"
      by metis
    ultimately show ?thesis by blast
  qed
  with pending_entries [OF pend] show ?thesis by simp
qed

theorem executor_pending_not_written_witness:
  "e_state exec1Pending = ExecutorPendingState
   \<and> executorEntries (fst (executorStateUpdateFunc exec1Pending wordcount start))
       = executorEntries wordcount
   \<and> events (processSingleExecutorStateUpdate (scripted 1 submitted (Some wordcount) None)
               exec1Pending start)
       = [ClientUpdate (allocated wordcount) (Inl conflict),
          ClientGet ''ns1'' ''wordcount'' (Inr submitted),
          ClientUpdate (allocated submitted) (Inr (allocated submitted))]
   \<and> executorEntries (allocated wordcount) = executorEntries wordcount
   \<and> executorEntries (allocated submitted) = executorEntries submitted"
proof -
  have pend: "e_state exec1Pending = ExecutorPendingState"
    by (simp add: exec1Pending_def)
  have names: "Namespace (allocated wordcount) = ''ns1''" "Name (allocated wordcount) = ''wordcount''"
    by (simp_all add: allocated_def wordcount_def)
  have key: "getApplicationKey (e_appNamespace exec1Pending) (e_appName exec1Pending)
               = ''ns1/wordcount''"
    by (simp add: getApplicationKey_def exec1Pending_def exec1Running_def)
  have run: "events (processSingleExecutorStateUpdate (scripted 1 submitted (Some wordcount) None)
               exec1Pending start)
       = [ClientUpdate (allocated wordcount) (Inl conflict),
          ClientGet ''ns1'' ''wordcount'' (Inr submitted),
          ClientUpdate (allocated submitted) (Inr (allocated submitted))]"
    by (simp add: processSingleExecutorStateUpdate_def key scripted_store
        updateSparkApplicationWithRetries_def maximumUpdateRetries_def numeral_3_eq_3
        tryUpdate_def exec1Pending_apply [OF wordcount_nil] exec1Pending_apply [OF submitted_nil]
        allocated_differs scripted_clientUpdate scripted_clientGet names start_def)
  have ent: "executorEntries (allocated wordcount) = executorEntries wordcount"
    "executorEntries (allocated submitted) = executorEntries submitted"
    by (simp_all add: allocated_def executorEntries_def wordcount_nil submitted_nil)
  from executor_pending_not_written [OF pend, of wordcount start] run ent pend
  show ?thesis by simp
qed

lemma executorStateUpdateFunc_other_pods:
  "podName \<noteq> e_podName update \<Longrightarrow>
     executorEntries (fst (executorStateUpdateFunc update toUpdate s)) podName
       = executorEntries toUpdate podName"
  by (simp add: executorStateUpdateFunc_def executorEntries_def Let_def split: option.splits)

lemma executorStateUpdateFunc_allocates:
  "ExecutorState (Status (fst (executorStateUpdateFunc update toUpdate s))) \<noteq> None"
  by (simp add: executorStateUpdateFunc_def Let_def)

lemma pending_on_nil:
  assumes "ExecutorState (Status toUpdate) = None" and "e_state update = ExecutorPendingState"
  shows "executorStateUpdateFunc update toUpdate s = (allocated toUpdate, s)"
  using assms by (simp add: executorStateUpdateFunc_def allocated_def Let_def)

lemma allocated_differs_nil:
  assumes "ExecutorState (Status toUpdate) = None"
  shows "Status (allocated toUpdate) \<noteq> Status toUpdate"
proof
  assume "Status (allocated toUpdate) = Status toUpdate"
  then have "ExecutorState (Status (allocated toUpdate)) = ExecutorState (Status toUpdate)"
    by simp
  with assms show False by (simp add: allocated_def)
qed

text \<open>
  C10. The update function of an executor state update changes no entry of a pod other
  than the update's pod and always leaves an allocated mapping. On a job whose mapping is
  nil, an update with the state Pending yields the empty allocated mapping: the status
  differs from the original, so \<^verbatim>\<open>tryUpdate\<close> calls \<^verbatim>\<open>Update\<close>, although no entry was added.
\<close>

theorem executor_update_frame_and_allocation:
  "(\<forall>podName. podName \<noteq> e_podName update \<longrightarrow>
       executorEntries (fst (executorStateUpdateFunc update toUpdate s)) podName
         = executorEntries toUpdate podName)
   \<and> ExecutorState (Status (fst (executorStateUpdateFunc update toUpdate s))) \<noteq> None
   \<and> (ExecutorState (Status toUpdate) = None \<and> e_state update = ExecutorPendingState \<longrightarrow>
        fst (executorStateUpdateFunc update toUpdate s) = allocated toUpdate
        \<and> ExecutorState (Status (allocated toUpdate)) = Some Map.empty
        \<and> executorEntries (allocated toUpdate) = executorEntries toUpdate
        \<and> Status (allocated toUpdate) \<noteq> Status toUpdate
        \<and> (Status original = Status toUpdate \<longrightarrow>
              persistenceCalls (snd (snd (tryUpdate env original toUpdate
                                            (executorStateUpdateFunc update) s)))
                = persistenceCalls s @
                    [ClientUpdate (allocated toUpdate)
                       (fst (crd_Update env (world s) (allocated toUpdate)))]))"
proof (intro conjI allI impI)
  fix podName
  assume "podName \<noteq> e_podName update"
  then show "executorEntries (fst (executorStateUpdateFunc update toUpdate s)) podName
         = executorEntries toUpdate podName"
    by (rule executorStateUpdateFunc_other_pods)
next
  show "ExecutorState (Status (fst (executorStateUpdateFunc update toUpdate s))) \<noteq> None"
    by (rule executorStateUpdateFunc_allocates)
next
  assume h: "ExecutorState (Status toUpdate) = None \<and> e_state update = ExecutorPendingState"
  then show "fst (executorStateUpdateFunc update toUpdate s) = allocated toUpdate"
    by (simp add: pending_on_nil)
  show "ExecutorState (Status (allocated toUpdate)) = Some Map.empty"
    by (simp add: allocated_def)
  from h show "executorEntries (allocated toUpdate) = executorEntries toUpdate"
    by (simp add: allocated_def executorEntries_def)
  from h show "Status (allocated toUpdate) \<noteq> Status toUpdate"
    by (simp add: allocated_differs_nil)
next
  assume h: "ExecutorState (Status toUpdate) = None \<and> e_state update = ExecutorPendingState"
    and same: "Status original = Status toUpdate"
  from h have m: "executorStateUpdateFunc update toUpdate s = (allocated toUpdate, s)"
    by (simp add: pending_on_nil)
  from h same have d: "Status original \<noteq> Status (allocated toUpdate)"
    using allocated_differs_nil [of toUpdate] by simp
  obtain r t where u: "clientUpdate env (allocated toUpdate) s = (r, t)"
    by (cases "clientUpdate env (allocated toUpdate) s")
  then have r: "r = fst (crd_Update env (world s) (allocated toUpdate))"
    by (auto simp: clientUpdate_def split: prod.splits)
  from m d u have "snd (snd (tryUpdate env original toUpdate (executorStateUpdateFunc update) s)) = t"
    by (simp add: tryUpdate_def split: sum.splits)
  with persistenceCalls_clientUpdate [OF u] r
  show "persistenceCalls (snd (snd (tryUpdate env original toUpdate
                                            (executorStateUpdateFunc update) s)))
                = persistenceCalls s @
                    [ClientUpdate (allocated toUpdate)
                       (fst (crd_Update env (world s) (allocated toUpdate)))]"
    by simp
qed

theorem executor_update_frame_and_allocation_witness:
  "''exec-2'' \<noteq> e_podName exec1Running
   \<and> executorEntries (fst (executorStateUpdateFunc exec1Running wordcount start)) ''exec-2''
       = executorEntries wordcount ''exec-2''
   \<and> ExecutorState (Status wordcount) = None \<and> e_state exec1Pending = ExecutorPendingState
   \<and> fst (executorStateUpdateFunc exec1Pending wordcount start) = allocated wordcount
   \<and> Status (allocated wordcount) \<noteq> Status wordcount
   \<and> persistenceCalls (snd (snd (tryUpdate (scripted 0 submitted (Some wordcount) None)
                                   wordcount wordcount (executorStateUpdateFunc exec1Pending) start)))
       = [ClientUpdate (allocated wordcount) (Inr (allocated wordcount))]"
proof -
  have other: "''exec-2'' \<noteq> e_podName exec1Running"
    by (simp add: exec1Running_def)
  have pend: "e_state exec1Pending = ExecutorPendingState"
    by (simp add: exec1Pending_def)
  have none: "persistenceCalls start = []"
    by (simp add: persistenceCalls_def start_def)
  have upd: "fst (crd_Update (scripted 0 submitted (Some wordcount) None) (world start)
                    (allocated wordcount)) = Inr (allocated wordcount)"
    by (simp add: scripted_def)
  from executor_update_frame_and_allocation
         [where update = exec1Running and toUpdate = wordcount and s = start]
       other
  have a: "executorEntries (fst (executorStateUpdateFunc exec1Running wordcount start)) ''exec-2''
       = executorEntries wordcount ''exec-2''"
    by blast
  from executor_update_frame_and_allocation
         [where update = exec1Pending and toUpdate = wordcount and s = start
            and original = wordcount and env = "scripted 0 submitted (Some wordcount) None"]
       wordcount_nil pend
  have b: "fst (executorStateUpdateFunc exec1Pending wordcount start) = allocated wordcount
   \<and> Status (allocated wordcount) \<noteq> Status wordcount
   \<and> persistenceCalls (snd (snd (tryUpdate (scripted 0 submitted (Some wordcount) None)
                                   wordcount wordcount (executorStateUpdateFunc exec1Pending) start)))
       = [ClientUpdate (allocated wordcount) (Inr (allocated wordcount))]"
    by (simp add: none upd)
  from other a wordcount_nil pend b show ?thesis by simp
qed

lemma newJob_fields:
  "Name newJob = ''wordcount''" "Namespace newJob = ''ns1''"
  "Status wordcount \<noteq> Status newJob"
  "Status_update (AppState_update (State_update (\<lambda>_. NewState)))
     (Status_update (AppID_update (\<lambda>_. ''wordcount-7'')) wordcount) = newJob"
  "Name wordcount = ''wordcount''"
  by (simp_all add: newJob_def wordcount_def emptyStatus_def)

section \<open>Defects\<close>

lemma missing_job_requeued:
  assumes "queue_Get env (world s) = ((key, False), w)"
    and "store_GetByKey env w key = Inr None"
  shows "processNextItem env s
           = (True,
              \<lparr>world = w,
               events = events s @
                 [HandleError ''failed to sync SparkApplication %q: %v''
                    [Str key, Err (StatusError StatusFailure StatusNotFound StatusReasonNotFound)],
                  QueueAddRateLimited key, QueueDone key]\<rparr>)"
  using assms
  by (simp add: processNextItem_def syncSparkApplication_def getSparkApplicationFromStore_def
      emit_def)

text \<open>
  C1. A key whose job is missing from the store: \<^verbatim>\<open>getSparkApplicationFromStore\<close> makes a
  not-found error of it, \<^verbatim>\<open>syncSparkApplication\<close> returns that error, and
  \<^verbatim>\<open>processNextItem\<close> reports it and adds the key to the queue again; the key is not
  forgotten.
\<close>

theorem processNextItem_not_found_requeued:
  "processNextItem (scripted 0 submitted None None) start
     = (True,
        \<lparr>world = 0,
         events =
           [HandleError ''failed to sync SparkApplication %q: %v''
              [Str ''ns1/wordcount'',
               Err (StatusError StatusFailure StatusNotFound StatusReasonNotFound)],
            QueueAddRateLimited ''ns1/wordcount'',
            QueueDone ''ns1/wordcount'']\<rparr>)
   \<and> IsNotFound (StatusError StatusFailure StatusNotFound StatusReasonNotFound)
   \<and> QueueForget ''ns1/wordcount''
        \<notin> set (events (snd (processNextItem (scripted 0 submitted None None) start)))"
proof -
  have q: "queue_Get (scripted 0 submitted None None) 0 = ((''ns1/wordcount'', False), 0)"
    by (simp add: scripted_def)
  have run: "processNextItem (scripted 0 submitted None None) start
     = (True,
        \<lparr>world = 0,
         events =
           [HandleError ''failed to sync SparkApplication %q: %v''
              [Str ''ns1/wordcount'',
               Err (StatusError StatusFailure StatusNotFound StatusReasonNotFound)],
            QueueAddRateLimited ''ns1/wordcount'',
            QueueDone ''ns1/wordcount'']\<rparr>)"
    by (simp add: processNextItem_def q syncSparkApplication_def scripted_store emit_def start_def)
  then show ?thesis by simp
qed

lemma build_failure_falls_through:
  assumes "updateSparkApplicationWithRetries env app app (submitAppUpdate env resubmission) s
             = (Some updatedApp, s1)"
    and "buildSubmissionCommandArgs env updatedApp = (submissionCmdArgs, Some err)"
  shows "submitApp env app resubmission s
           = emit (RunnerSubmit (newSubmission submissionCmdArgs updatedApp))
               (emit (GlogErrorf
                       ''failed to build the submission command for SparkApplication %s: %v''
                       [Str (Name updatedApp), Err err]) s1)"
  using assms by (simp add: submitApp_def)

text \<open>
  C2. A job whose submission command cannot be built: \<^verbatim>\<open>submitApp\<close> logs the failure and
  then hands a submission, with the arguments returned next to the error, to the runner.
\<close>

theorem submitApp_build_failure_still_submits:
  "submitApp (scripted 0 submitted (Some wordcount) (Some (OtherError ''no main file'')))
      wordcount False start
     = \<lparr>world = 1,
        events =
          [ClientUpdate newJob (Inr newJob),
           GlogErrorf ''failed to build the submission command for SparkApplication %s: %v''
             [Str ''wordcount'', Err (OtherError ''no main file'')],
           RunnerSubmit (newSubmission [] newJob)]\<rparr>"
proof -
  have b: "buildSubmissionCommandArgs
             (scripted 0 submitted (Some wordcount) (Some (OtherError ''no main file''))) newJob
           = ([], Some (OtherError ''no main file''))"
    by (simp add: scripted_def)
  show ?thesis
    by (simp add: submitApp_def updateSparkApplicationWithRetries_def maximumUpdateRetries_def
        numeral_3_eq_3 tryUpdate_def scripted_submitAppUpdate scripted_clientUpdate newJob_fields
        b emit_def start_def)
qed

section \<open>The two meanings of nil\<close>

lemma updater_exhausted_nil:
  assumes m1: "updateFunc toUpdate s = (a1, s1)" and d1: "Status original \<noteq> Status a1"
    and c1: "clientUpdate env a1 s1 = (Inl e1, t1)"
    and g1: "clientGet env (Namespace a1) (Name a1) t1 = (Inr b1, u1)"
    and m2: "updateFunc b1 u1 = (a2, s2)" and d2: "Status original \<noteq> Status a2"
    and c2: "clientUpdate env a2 s2 = (Inl e2, t2)"
    and g2: "clientGet env (Namespace a2) (Name a2) t2 = (Inr b2, u2)"
    and m3: "updateFunc b2 u2 = (a3, s3)" and d3: "Status original \<noteq> Status a3"
    and c3: "clientUpdate env a3 s3 = (Inl e3, t3)"
  shows "fst (updateSparkApplicationWithRetries env original toUpdate updateFunc s) = None"
proof -
  have unfold: "updateSparkApplicationWithRetries env original toUpdate updateFunc s
                  = updateLoop env (Suc 0) original b2 updateFunc (Some e2) u2"
    by (simp only: updateSparkApplicationWithRetries_def maximumUpdateRetries_def numeral_3_eq_3
        updateLoop_retry [where updateFunc = updateFunc and toUpdate = toUpdate and s = s,
          OF m1 d1 c1 g1]
        updateLoop_retry [where updateFunc = updateFunc and toUpdate = b1 and s = u1,
          OF m2 d2 c2 g2])
  from updateLoop_last_failure [where updateFunc = updateFunc and toUpdate = b2 and s = u2
      and lastUpdateErr = "Some e2", OF m3 d3 c3]
  obtain fmt args u where
    "updateLoop env (Suc 0) original b2 updateFunc (Some e2) u2
       = (None, emit (GlogErrorf fmt args) u)"
    by blast
  with unfold show ?thesis by simp
qed

lemma submitApp_abandoned:
  assumes "fst (updateSparkApplicationWithRetries env app app (submitAppUpdate env resubmission) s)
             = None"
  shows "submitApp env app resubmission s
           = snd (updateSparkApplicationWithRetries env app app (submitAppUpdate env resubmission) s)"
proof -
  obtain r t where
    u: "updateSparkApplicationWithRetries env app app (submitAppUpdate env resubmission) s = (r, t)"
    by (cases "updateSparkApplicationWithRetries env app app (submitAppUpdate env resubmission) s")
  with assms have "r = None" by simp
  with u show ?thesis by (simp add: submitApp_def)
qed

lemma submitAppUpdate_events:
  "events (snd (submitAppUpdate env resubmission app s)) = events s"
  by (simp add: submitAppUpdate_def buildAppID_def Let_def split: prod.splits)

text \<open>
  C9. The status updater returns nil when the update function leaves the status equal
  to the original's, and it returns nil when three persistence attempts in a row fail.
  \<^verbatim>\<open>submitApp\<close> returns without handing a submission to the runner whenever the updater
  returns nil; so it does when its update function leaves the status of the job as it
  was, and then the run records no event at all.
\<close>

theorem nil_from_updater_is_ambiguous:
  "(Status (fst (updateFunc toUpdate s)) = Status original \<longrightarrow>
      fst (updateSparkApplicationWithRetries env original toUpdate updateFunc s) = None)
   \<and> (updateFunc toUpdate s = (a1, s1) \<and> Status original \<noteq> Status a1
        \<and> clientUpdate env a1 s1 = (Inl e1, t1)
        \<and> clientGet env (Namespace a1) (Name a1) t1 = (Inr b1, u1)
        \<and> updateFunc b1 u1 = (a2, s2) \<and> Status original \<noteq> Status a2
        \<and> clientUpdate env a2 s2 = (Inl e2, t2)
        \<and> clientGet env (Namespace a2) (Name a2) t2 = (Inr b2, u2)
        \<and> updateFunc b2 u2 = (a3, s3) \<and> Status original \<noteq> Status a3
        \<and> clientUpdate env a3 s3 = (Inl e3, t3) \<longrightarrow>
      fst (updateSparkApplicationWithRetries env original toUpdate updateFunc s) = None)
   \<and> (fst (updateSparkApplicationWithRetries env app app (submitAppUpdate env resubmission) s')
         = None \<longrightarrow>
      submitApp env app resubmission s'
        = snd (updateSparkApplicationWithRetries env app app (submitAppUpdate env resubmission) s'))
   \<and> (Status (fst (submitAppUpdate env resubmission app s')) = Status app \<longrightarrow>
      submitApp env app resubmission s' = snd (submitAppUpdate env resubmission app s')
      \<and> events (submitApp env app resubmission s') = events s')"
proof (intro conjI impI)
  assume "Status (fst (updateFunc toUpdate s)) = Status original"
  then show "fst (updateSparkApplicationWithRetries env original toUpdate updateFunc s) = None"
    by (simp add: updater_unchanged)
next
  assume "updateFunc toUpdate s = (a1, s1) \<and> Status original \<noteq> Status a1
        \<and> clientUpdate env a1 s1 = (Inl e1, t1)
        \<and> clientGet env (Namespace a1) (Name a1) t1 = (Inr b1, u1)
        \<and> updateFunc b1 u1 = (a2, s2) \<and> Status original \<noteq> Status a2
        \<and> clientUpdate env a2 s2 = (Inl e2, t2)
        \<and> clientGet env (Namespace a2) (Name a2) t2 = (Inr b2, u2)
        \<and> updateFunc b2 u2 = (a3, s3) \<and> Status original \<noteq> Status a3
        \<and> clientUpdate env a3 s3 = (Inl e3, t3)"
  then show "fst (updateSparkApplicationWithRetries env original toUpdate updateFunc s) = None"
    by (intro updater_exhausted_nil [where updateFunc = updateFunc and toUpdate = toUpdate
          and s = s and env = env and original = original and ?a1.0 = a1 and ?s1.0 = s1
          and ?e1.0 = e1 and ?t1.0 = t1 and ?b1.0 = b1 and ?u1.0 = u1 and ?a2.0 = a2
          and ?s2.0 = s2 and ?e2.0 = e2 and ?t2.0 = t2 and ?b2.0 = b2 and ?u2.0 = u2
          and ?a3.0 = a3 and ?s3.0 = s3 and ?e3.0 = e3 and ?t3.0 = t3]) simp_all
next
  assume "fst (updateSparkApplicationWithRetries env app app (submitAppUpdate env resubmission) s')
         = None"
  then show "submitApp env app resubmission s'
        = snd (updateSparkApplicationWithRetries env app app (submitAppUpdate env resubmission) s')"
    by (rule submitApp_abandoned)
next
  assume same: "Status (fst (submitAppUpdate env resubmission app s')) = Status app"
  have u: "updateSparkApplicationWithRetries env app app (submitAppUpdate env resubmission) s'
             = (None, snd (submitAppUpdate env resubmission app s'))"
    using same by (rule updater_unchanged)
  then show r: "submitApp env app resubmission s' = snd (submitAppUpdate env resubmission app s')"
    by (simp add: submitApp_def)
  show "events (submitApp env app resubmission s') = events s'"
    by (simp add: r submitAppUpdate_events)
qed

theorem nil_from_updater_is_ambiguous_witness:
  "Status (fst (submitAppUpdate (scripted 0 submitted (Some newJob) None) False newJob start))
     = Status newJob
   \<and> submitApp (scripted 0 submitted (Some newJob) None) newJob False start = start
   \<and> fst (updateSparkApplicationWithRetries (scripted 0 submitted (Some newJob) None)
            newJob newJob (submitAppUpdate (scripted 0 submitted (Some newJob) None) False) start)
       = None
   \<and> fst (updateSparkApplicationWithRetries (scripted 3 submitted (Some wordcount) None)
            wordcount wordcount (executorStateUpdateFunc exec1Running) start) = None"
proof -
  let ?env = "scripted 0 submitted (Some newJob) None"
  let ?f = "executorStateUpdateFunc exec1Running :: nat updateFunc"
  let ?t1 = "\<lparr>world = Suc 0, events = [ClientUpdate (recorded wordcount) (Inl conflict)]\<rparr>"
  let ?u1 = "\<lparr>world = Suc 0, events = [ClientUpdate (recorded wordcount) (Inl conflict),
                   ClientGet ''ns1'' ''wordcount'' (Inr submitted)]\<rparr>"
  let ?t2 = "\<lparr>world = Suc (Suc 0), events = [ClientUpdate (recorded wordcount) (Inl conflict),
                   ClientGet ''ns1'' ''wordcount'' (Inr submitted),
                   ClientUpdate (recorded submitted) (Inl conflict)]\<rparr>"
  let ?u2 = "\<lparr>world = Suc (Suc 0), events = [ClientUpdate (recorded wordcount) (Inl conflict),
                   ClientGet ''ns1'' ''wordcount'' (Inr submitted),
                   ClientUpdate (recorded submitted) (Inl conflict),
                   ClientGet ''ns1'' ''wordcount'' (Inr submitted)]\<rparr>"
  let ?t3 = "\<lparr>world = Suc (Suc (Suc 0)), events = [ClientUpdate (recorded wordcount) (Inl conflict),
                   ClientGet ''ns1'' ''wordcount'' (Inr submitted),
                   ClientUpdate (recorded submitted) (Inl conflict),
                   ClientGet ''ns1'' ''wordcount'' (Inr submitted),
                   ClientUpdate (recorded submitted) (Inl conflict)]\<rparr>"
  have same: "submitAppUpdate ?env False newJob start = (newJob, start)"
    by (simp add: scripted_submitAppUpdate) (simp add: newJob_def wordcount_def)
  have names: "Namespace (recorded wordcount) = ''ns1''" "Name (recorded wordcount) = ''wordcount''"
    "Namespace (recorded submitted) = ''ns1''" "Name (recorded submitted) = ''wordcount''"
    by (simp_all add: recorded_def submitted_def wordcount_def)
  note facts = exec1Running_apply [OF wordcount_nil] exec1Running_apply [OF submitted_nil]
    scripted_clientUpdate scripted_clientGet recorded_differs names start_def
  note thm1 = nil_from_updater_is_ambiguous
    [where updateFunc = "submitAppUpdate ?env False" and toUpdate = newJob and s = start
       and original = newJob and env = ?env and app = newJob and resubmission = False
       and s' = start]
  from thm1 same
  have a: "submitApp ?env newJob False start = start
           \<and> fst (updateSparkApplicationWithRetries ?env newJob newJob
                    (submitAppUpdate ?env False) start) = None"
    by simp
  from nil_from_updater_is_ambiguous
    [where updateFunc = ?f and env = "scripted 3 submitted (Some wordcount) None"
       and original = wordcount and toUpdate = wordcount and s = start
       and ?a1.0 = "recorded wordcount" and ?s1.0 = start and ?e1.0 = conflict and ?t1.0 = ?t1
       and ?b1.0 = submitted and ?u1.0 = ?u1
       and ?a2.0 = "recorded submitted" and ?s2.0 = ?u1 and ?e2.0 = conflict and ?t2.0 = ?t2
       and ?b2.0 = submitted and ?u2.0 = ?u2
       and ?a3.0 = "recorded submitted" and ?s3.0 = ?u2 and ?e3.0 = conflict and ?t3.0 = ?t3]
  have b: "fst (updateSparkApplicationWithRetries (scripted 3 submitted (Some wordcount) None)
            wordcount wordcount ?f start) = None"
    by (simp add: facts numeral_3_eq_3)
  from a b same show ?thesis by simp
qed

section \<open>Restart policy\<close>

lemma handleRestart_nothing:
  "RestartPolicy (Spec app) = Never \<or> RestartPolicy (Spec app) = Undefined
     \<or> (State (AppState (Status app)) = CompletedState \<and> RestartPolicy (Spec app) = OnFailure)
   \<Longrightarrow> handleRestart env app s = s"
  by (auto simp: handleRestart_def)

lemma handleRestart_resubmits:
  "(State (AppState (Status app)) = FailedState \<and> RestartPolicy (Spec app) = OnFailure)
     \<or> RestartPolicy (Spec app) = Always
   \<Longrightarrow> handleRestart env app s = submitApp env app True (s\<lparr>events := events s @ announced app\<rparr>)"
  by (auto simp: handleRestart_def emit_def announced_def)

lemma processPodStateUpdates_terminated:
  assumes "processSingleDriverStateUpdate env update s = (Some updatedApp, s1)"
    and "isAppTerminated (State (AppState (Status updatedApp)))"
  shows "processPodStateUpdates env (DriverUpdate update # updates) s
           = processPodStateUpdates env updates (handleRestart env updatedApp s1)"
  using assms by simp

text \<open>
  C5. Restart evaluation by state and policy: with the policy Never or Undefined nothing
  is done; a Failed job with the policy OnFailure is resubmitted; with the policy Always
  the job is resubmitted whatever its state; a Completed job with the policy OnFailure is
  not resubmitted. Resubmitting records the resubmission event and calls \<^verbatim>\<open>submitApp\<close> with
  the resubmission flag set. The consumer of driver state updates evaluates the restart
  for the updated job when its state is terminal.
\<close>

theorem handleRestart_policy_table:
  "(RestartPolicy (Spec app) = Never \<or> RestartPolicy (Spec app) = Undefined \<longrightarrow>
      handleRestart env app s = s)
   \<and> (State (AppState (Status app)) = FailedState \<and> RestartPolicy (Spec app) = OnFailure \<longrightarrow>
      handleRestart env app s = submitApp env app True (s\<lparr>events := events s @ announced app\<rparr>))
   \<and> (RestartPolicy (Spec app) = Always \<longrightarrow>
      handleRestart env app s = submitApp env app True (s\<lparr>events := events s @ announced app\<rparr>))
   \<and> (State (AppState (Status app)) = CompletedState \<and> RestartPolicy (Spec app) = OnFailure \<longrightarrow>
      handleRestart env app s = s)
   \<and> (processSingleDriverStateUpdate env update s = (Some updatedApp, s1)
        \<and> isAppTerminated (State (AppState (Status updatedApp))) \<longrightarrow>
      processPodStateUpdates env (DriverUpdate update # updates) s
        = processPodStateUpdates env updates (handleRestart env updatedApp s1))"
  by (simp add: handleRestart_nothing handleRestart_resubmits)

lemma fresh_differs:
  "State (AppState (Status app)) \<noteq> NewState \<Longrightarrow> Status app \<noteq> Status (fresh app)"
proof
  assume a: "State (AppState (Status app)) \<noteq> NewState" and "Status app = Status (fresh app)"
  then have "State (AppState (Status app)) = State (AppState (Status (fresh app)))" by simp
  with a show False by (simp add: fresh_def)
qed

lemma scripted_resubmit:
  assumes "State (AppState (Status app)) \<noteq> NewState"
  shows "submitApp (scripted 0 latest cached None) app True \<lparr>world = w, events = evs\<rparr>
           = \<lparr>world = Suc w,
              events = evs @ [ClientUpdate (fresh app) (Inr (fresh app)),
                              RunnerSubmit (newSubmission [] (fresh app))]\<rparr>"
proof -
  have m: "submitAppUpdate (scripted 0 latest cached None) True app \<lparr>world = w, events = evs\<rparr>
             = (fresh app, \<lparr>world = w, events = evs\<rparr>)"
    by (simp add: scripted_submitAppUpdate fresh_def)
  have b: "buildSubmissionCommandArgs (scripted 0 latest cached None) (fresh app) = ([], None)"
    by (simp add: scripted_def)
  show ?thesis
    by (simp add: submitApp_def updateSparkApplicationWithRetries_def maximumUpdateRetries_def
        numeral_3_eq_3 tryUpdate_def m fresh_differs [OF assms] scripted_clientUpdate b emit_def)
qed

lemma job_fields [simp]:
  "RestartPolicy (Spec (job policy st)) = policy"
  "State (AppState (Status (job policy st))) = st"
  "Name (job policy st) = ''wordcount''"
  "Namespace (job policy st) = ''ns1''"
  by (simp_all add: job_def wordcount_def)

lemma terminated_fields [simp]:
  "RestartPolicy (Spec terminated) = OnFailure"
  "State (AppState (Status terminated)) = FailedState"
  "Name terminated = ''wordcount''"
  by (simp_all add: terminated_def job_def wordcount_def)

lemma driverFailed_apply:
  "driverStateUpdateFunc env driverFailed (job OnFailure RunningState) s = (terminated, s)"
  by (simp add: driverStateUpdateFunc_def driverFailed_def terminated_def Let_def IsZero_def
      driverPodPhaseToApplicationState_def PodFailed_def PodPending_def PodRunning_def
      PodSucceeded_def)

lemma terminated_differs: "Status (job OnFailure RunningState) \<noteq> Status terminated"
proof
  assume "Status (job OnFailure RunningState) = Status terminated"
  then have "State (AppState (Status (job OnFailure RunningState)))
               = State (AppState (Status terminated))" by simp
  then show False by simp
qed

lemma driverFailed_processed:
  "processSingleDriverStateUpdate
      (scripted 0 submitted (Some (job OnFailure RunningState)) None) driverFailed start
     = (Some terminated,
        \<lparr>world = 1,
         events = [ClientUpdate terminated (Inr terminated),
                   RecorderEventf terminated ''Normal'' ''SparkApplicationTermination''
                     [Str ''SparkApplication %s terminated with state: %v'', Str ''wordcount'',
                      AppStateArg (AppState (Status terminated))]]\<rparr>)"
proof -
  have key: "getApplicationKey (d_appNamespace driverFailed) (d_appName driverFailed)
               = ''ns1/wordcount''"
    by (simp add: getApplicationKey_def driverFailed_def)
  show ?thesis
    by (simp add: processSingleDriverStateUpdate_def key scripted_store
        updateSparkApplicationWithRetries_def maximumUpdateRetries_def numeral_3_eq_3
        tryUpdate_def driverFailed_apply terminated_differs scripted_clientUpdate
        isAppTerminated_def emit_def start_def)
qed

theorem handleRestart_policy_table_witness:
  "handleRestart (scripted 0 submitted None None) (job Never FailedState) start = start
   \<and> handleRestart (scripted 0 submitted None None) (job Undefined CompletedState) start = start
   \<and> handleRestart (scripted 0 submitted None None) (job OnFailure FailedState) start
       = \<lparr>world = 1,
          events = announced (job OnFailure FailedState) @
            [ClientUpdate (fresh (job OnFailure FailedState)) (Inr (fresh (job OnFailure FailedState))),
             RunnerSubmit (newSubmission [] (fresh (job OnFailure FailedState)))]\<rparr>
   \<and> handleRestart (scripted 0 submitted None None) (job Always CompletedState) start
       = \<lparr>world = 1,
          events = announced (job Always CompletedState) @
            [ClientUpdate (fresh (job Always CompletedState)) (Inr (fresh (job Always CompletedState))),
             RunnerSubmit (newSubmission [] (fresh (job Always CompletedState)))]\<rparr>
   \<and> handleRestart (scripted 0 submitted None None) (job OnFailure CompletedState) start = start
   \<and> processPodStateUpdates (scripted 0 submitted (Some (job OnFailure RunningState)) None)
        [DriverUpdate driverFailed] start
       = \<lparr>world = 2,
          events = [ClientUpdate terminated (Inr terminated),
                    RecorderEventf terminated ''Normal'' ''SparkApplicationTermination''
                      [Str ''SparkApplication %s terminated with state: %v'', Str ''wordcount'',
                       AppStateArg (AppState (Status terminated))]]
                   @ announced terminated @
                   [ClientUpdate (fresh terminated) (Inr (fresh terminated)),
                    RunnerSubmit (newSubmission [] (fresh terminated))]\<rparr>"
proof -
  let ?env = "scripted 0 submitted None None"
  note t = handleRestart_policy_table
  have r1: "handleRestart ?env (job Never FailedState) start = start"
    using t [where app = "job Never FailedState" and env = ?env and s = start] by simp
  have r2: "handleRestart ?env (job Undefined CompletedState) start = start"
    using t [where app = "job Undefined CompletedState" and env = ?env and s = start] by simp
  have r3: "handleRestart ?env (job OnFailure FailedState) start
       = \<lparr>world = 1,
          events = announced (job OnFailure FailedState) @
            [ClientUpdate (fresh (job OnFailure FailedState)) (Inr (fresh (job OnFailure FailedState))),
             RunnerSubmit (newSubmission [] (fresh (job OnFailure FailedState)))]\<rparr>"
    using t [where app = "job OnFailure FailedState" and env = ?env and s = start]
    by (simp add: start_def scripted_resubmit)
  have r4: "handleRestart ?env (job Always CompletedState) start
       = \<lparr>world = 1,
          events = announced (job Always CompletedState) @
            [ClientUpdate (fresh (job Always CompletedState)) (Inr (fresh (job Always CompletedState))),
             RunnerSubmit (newSubmission [] (fresh (job Always CompletedState)))]\<rparr>"
    using t [where app = "job Always CompletedState" and env = ?env and s = start]
    by (simp add: start_def scripted_resubmit)
  have r5: "handleRestart ?env (job OnFailure CompletedState) start = start"
    using t [where app = "job OnFailure CompletedState" and env = ?env and s = start] by simp
  let ?env2 = "scripted 0 submitted (Some (job OnFailure RunningState)) None"
  have fin: "isAppTerminated (State (AppState (Status terminated)))"
    by (simp add: isAppTerminated_def)
  have r6: "processPodStateUpdates ?env2 [DriverUpdate driverFailed] start
       = \<lparr>world = 2,
          events = [ClientUpdate terminated (Inr terminated),
                    RecorderEventf terminated ''Normal'' ''SparkApplicationTermination''
                      [Str ''SparkApplication %s terminated with state: %v'', Str ''wordcount'',
                       AppStateArg (AppState (Status terminated))]]
                   @ announced terminated @
                   [ClientUpdate (fresh terminated) (Inr (fresh terminated)),
                    RunnerSubmit (newSubmission [] (fresh terminated))]\<rparr>"
    using t [where env = ?env2 and update = driverFailed and s = start
               and updatedApp = terminated and updates = "[]"
               and ?s1.0 = "snd (processSingleDriverStateUpdate ?env2 driverFailed start)"]
          driverFailed_processed fin
    by (simp add: handleRestart_resubmits scripted_resubmit)
  from r1 r2 r3 r4 r5 r6 show ?thesis by simp
qed

end
